theory Spec2Isabelle
  imports Main
begin

section \<open>Values, files and the environment\<close>

text \<open>
  The backend keeps every collection in one JSON file and every route handler follows
  the pattern read file, change the array, write file. The model below follows the
  handlers of \<open>routes/eventos.js\<close>, \<open>routes/noticias.js\<close>, \<open>routes/admins.js\<close>,
  \<open>routes/auth.js\<close>, \<open>routes/contatos.js\<close>, \<open>routes/admin.js\<close> and
  \<open>middlewares/auth.js\<close>.

  Modelling decisions, valid for the whole development:

   \<bullet> A JavaScript value that a handler only tests for truthiness and copies is a
     \<open>json\<close> value; \<open>None\<close> of type \<open>json option\<close> is \<open>undefined\<close>. Numbers inside
     such values are integers.

   \<bullet> The \<open>id\<close> of a stored entity is an integer that a double holds exactly. Handlers
     assign it from \<open>Math.max(...ids, 0) + 1\<close>, which is computed in the arithmetic of
     doubles (\<open>mais_um\<close>) and throws when the spread has more arguments than the engine
     accepts (\<open>max_args\<close>); no update whitelist contains \<open>id\<close>.

   \<bullet> Fields of administrators and contact messages on which the handlers call string
     operations (\<open>.length\<close>, the e-mail pattern, bcrypt) are strings. A character is a
     UTF-16 code unit below 256, and a string's length is its number of code units.

   \<bullet> A file is missing, unparseable, or holds the value it parses to: a written file
     holds the value that was serialised, so contents are compared up to the whitespace
     of \<open>JSON.stringify(v, null, 2)\<close>. A data file that parses holds a value of the
     shape the handlers write to it.

   \<bullet> The application lives in the directory \<open>raiz\<close> (the segments of its absolute
     path), with the route handlers in \<open>routes\<close>, the five data files in \<open>data\<close> and the
     backups in \<open>backups\<close>. The path that the restore handler builds from the request,
     \<open>path.join(__dirname, '../backups', filename)\<close>, is resolved as Node resolves it on
     a POSIX system (\<open>backupPath\<close>): a name with \<open>..\<close> or \<open>/\<close> may lead out of the backup
     directory. What lies at a path other than the five data files and the entries of
     the backup directory is given by \<open>outros\<close>. The file names that the handlers build
     themselves, \<open>backup-\<close> or \<open>backup-before-restore-\<close> followed by an encoded instant and
     \<open>.json\<close>, carry no separator and are entries of the backup directory.

   \<bullet> \<open>fs.writeFile\<close> fails exactly on the paths listed in \<open>unwritable\<close>; every
     successful write is appended to the log \<open>written\<close>.

   \<bullet> A response is its HTTP status and, where a handler returns one that matters here,
     its \<open>data\<close> payload; the \<open>success\<close> flag and the message text are left out
     (\<open>success\<close> is true exactly for the statuses 200 and 201).

   \<bullet> The clock, bcrypt and the locale date formatter are the environment \<open>ambiente\<close>:
     \<open>agora amb k\<close> is what the k-th \<open>new Date().toISOString()\<close> of a handler returns,
     counted in the order of the handler's text. Every such reading has the shape that
     \<open>toISOString\<close> prints (the type \<open>instante\<close>).
\<close>

datatype json =
    JNull
  | JBool bool
  | JNum int
  | JStr string
  | JArr "json list"
  | JObj "(string \<times> json) list"

fun truthy :: "json option \<Rightarrow> bool" where
  "truthy None = False"
| "truthy (Some JNull) = False"
| "truthy (Some (JBool b)) = b"
| "truthy (Some (JNum n)) = (n \<noteq> 0)"
| "truthy (Some (JStr s)) = (s \<noteq> [])"
| "truthy (Some (JArr xs)) = True"
| "truthy (Some (JObj kvs)) = True"

text \<open>\<open>x || d\<close> on a possibly undefined value.\<close>

definition js_or :: "json option \<Rightarrow> json \<Rightarrow> json" where
  "js_or x d = (case x of None \<Rightarrow> d | Some v \<Rightarrow> if truthy (Some v) then v else d)"

text \<open>Truthiness of a string-typed field: undefined and the empty string are falsy.\<close>

definition truthy_str :: "string option \<Rightarrow> bool" where
  "truthy_str x = (case x of None \<Rightarrow> False | Some s \<Rightarrow> s \<noteq> [])"

datatype 'a arquivo = Missing | Corrupt | Content 'a

datatype path =
    EVENTOS_FILE
  | NOTICIAS_FILE
  | ADMINS_FILE
  | CONTATOS_FILE
  | MENSAGENS_FILE
  | BACKUP string

record item =
  item_id :: int
  campos :: "string \<rightharpoonup> json"

record admin =
  admin_id :: int
  nome :: string
  email :: string
  senha :: string
  role :: string
  ativo :: bool
  criadoEm :: string
  atualizadoEm :: string
  ultimoLogin :: "string option"

record mensagem =
  msg_id :: int
  msg_nome :: string
  msg_email :: string
  msg_mensagem :: string
  dataEnvio :: string
  lida :: bool
  respondida :: bool
  atualizadaEm :: "string option"

record backup =
  timestamp :: string
  eventos :: "item list option"
  noticias :: "item list option"

text \<open>
  The contact document: the six keys that the default and \<open>PUT /api/contatos\<close> write.
\<close>

record contatos =
  c_email :: json
  c_telefone :: json
  c_endereco :: json
  c_horarioFuncionamento :: json
  c_redesSociais :: json
  c_atualizadoEm :: string

text \<open>
  The state of the disk. \<open>backups s name\<close> is the entry \<open>name\<close> of the backup directory.
  \<open>outros s (p, barra)\<close> is what lies at the absolute path of segments \<open>p\<close>, written with
  a final separator when \<open>barra\<close> holds, for every path that is not one of the five data
  files or an entry of the backup directory: nothing (\<open>Missing\<close>), something that cannot
  be read as a JSON document with properties, such as a directory (\<open>Corrupt\<close>), or a
  JSON document, given by its properties \<open>eventos\<close> and \<open>noticias\<close>.
\<close>

record fs =
  raiz :: "string list"
  eventos_json :: "item list arquivo"
  noticias_json :: "item list arquivo"
  admins_json :: "admin list arquivo"
  contatos_json :: "contatos arquivo"
  mensagens_json :: "mensagem list arquivo"
  backups :: "string \<Rightarrow> backup arquivo"
  outros :: "string list \<times> bool \<Rightarrow> (item list option \<times> item list option) arquivo"
  unwritable :: "path set"
  written :: "path list"

text \<open>
  What \<open>Date.prototype.toISOString\<close> produces: a date part of digits, \<open>-\<close> and a
  possible sign, then \<open>THH:mm:ss.sssZ\<close>.
\<close>

definition digito :: "char \<Rightarrow> bool" where
  "digito c = (c \<in> set ''0123456789'')"

definition is_iso_instant :: "string \<Rightarrow> bool" where
  "is_iso_instant inst =
     (14 \<le> length inst \<and>
      (let d = take (length inst - 14) inst; t = drop (length inst - 14) inst in
         d \<noteq> [] \<and> list_all (\<lambda>c. digito c \<or> c = CHR ''-'' \<or> c = CHR ''+'') d \<and>
         t ! 0 = CHR ''T'' \<and> digito (t ! 1) \<and> digito (t ! 2) \<and> t ! 3 = CHR '':'' \<and>
         digito (t ! 4) \<and> digito (t ! 5) \<and> t ! 6 = CHR '':'' \<and>
         digito (t ! 7) \<and> digito (t ! 8) \<and> t ! 9 = CHR ''.'' \<and>
         digito (t ! 10) \<and> digito (t ! 11) \<and> digito (t ! 12) \<and> t ! 13 = CHR ''Z''))"

typedef instante = "{t. is_iso_instant t}"
  morphisms toISOString Abs_instante
  by (intro exI [of _ "''1970-01-01T00:00:00.000Z''"]) (simp add: is_iso_instant_def digito_def)

text \<open>
  The environment of a request. \<open>max_args\<close> is the largest number of arguments that the
  engine accepts in one call.
\<close>

record ambiente =
  relogio :: "nat \<Rightarrow> instante"
  max_args :: nat
  bcrypt_hash :: "string \<Rightarrow> string"
  bcrypt_compare :: "string \<Rightarrow> string \<Rightarrow> bool"
  toLocaleDateString :: "json \<Rightarrow> string"
  ADMIN_EMAIL :: "string option"
  ADMIN_PASSWORD :: "string option"

definition agora :: "ambiente \<Rightarrow> nat \<Rightarrow> string" where
  "agora amb k = toISOString (relogio amb k)"

datatype 'd response = Response (status: nat) (data: "'d option")

text \<open>\<open>JSON.parse(await fs.readFile(p, 'utf8'))\<close>: \<open>None\<close> when either step throws.\<close>

definition readJson :: "'a arquivo \<Rightarrow> 'a option" where
  "readJson f = (case f of Content v \<Rightarrow> Some v | Missing \<Rightarrow> None | Corrupt \<Rightarrow> None)"

text \<open>\<open>await fs.writeFile(p, JSON.stringify(v, null, 2))\<close>: \<open>None\<close> when it rejects.\<close>

definition writeFile :: "path \<Rightarrow> (fs \<Rightarrow> fs) \<Rightarrow> fs \<Rightarrow> fs option" where
  "writeFile p put s =
     (if p \<in> unwritable s then None else Some ((put s)\<lparr>written := written s @ [p]\<rparr>))"

definition write_eventos :: "item list \<Rightarrow> fs \<Rightarrow> fs option" where
  "write_eventos v = writeFile EVENTOS_FILE (\<lambda>s. s\<lparr>eventos_json := Content v\<rparr>)"

definition write_noticias :: "item list \<Rightarrow> fs \<Rightarrow> fs option" where
  "write_noticias v = writeFile NOTICIAS_FILE (\<lambda>s. s\<lparr>noticias_json := Content v\<rparr>)"

definition write_admins :: "admin list \<Rightarrow> fs \<Rightarrow> fs option" where
  "write_admins v = writeFile ADMINS_FILE (\<lambda>s. s\<lparr>admins_json := Content v\<rparr>)"

definition write_contatos :: "contatos \<Rightarrow> fs \<Rightarrow> fs option" where
  "write_contatos v = writeFile CONTATOS_FILE (\<lambda>s. s\<lparr>contatos_json := Content v\<rparr>)"

definition write_mensagens :: "mensagem list \<Rightarrow> fs \<Rightarrow> fs option" where
  "write_mensagens v = writeFile MENSAGENS_FILE (\<lambda>s. s\<lparr>mensagens_json := Content v\<rparr>)"

definition write_backup :: "string \<Rightarrow> backup \<Rightarrow> fs \<Rightarrow> fs option" where
  "write_backup name v =
     writeFile (BACKUP name) (\<lambda>s. s\<lparr>backups := (backups s)(name := Content v)\<rparr>)"

text \<open>
  The \<open>salvarX\<close> functions: \<open>try { await fs.writeFile(...); return true } catch { return false }\<close>.
\<close>

definition salvar :: "('v \<Rightarrow> fs \<Rightarrow> fs option) \<Rightarrow> 'v \<Rightarrow> fs \<Rightarrow> bool \<times> fs" where
  "salvar wr v s = (case wr v s of None \<Rightarrow> (False, s) | Some s' \<Rightarrow> (True, s'))"

definition salvarEventos :: "item list \<Rightarrow> fs \<Rightarrow> bool \<times> fs" where
  "salvarEventos = salvar write_eventos"

definition salvarNoticias :: "item list \<Rightarrow> fs \<Rightarrow> bool \<times> fs" where
  "salvarNoticias = salvar write_noticias"

definition salvarAdmins :: "admin list \<Rightarrow> fs \<Rightarrow> bool \<times> fs" where
  "salvarAdmins = salvar write_admins"

definition salvarContatos :: "contatos \<Rightarrow> fs \<Rightarrow> bool \<times> fs" where
  "salvarContatos = salvar write_contatos"

definition salvarMensagens :: "mensagem list \<Rightarrow> fs \<Rightarrow> bool \<times> fs" where
  "salvarMensagens = salvar write_mensagens"

section \<open>Loading a collection\<close>

text \<open>
  \<open>lerEventos\<close>, \<open>lerNoticias\<close>, \<open>lerAdmins\<close> and \<open>lerContatos\<close> share one body: on a read or
  parse error, write the default inside an inner \<open>try\<close> whose \<open>catch\<close> only logs, then
  return the default.
\<close>

definition ler_com_padrao ::
  "'v arquivo \<Rightarrow> ('v \<Rightarrow> fs \<Rightarrow> fs option) \<Rightarrow> 'v \<Rightarrow> fs \<Rightarrow> 'v \<times> fs" where
  "ler_com_padrao f wr padrao s =
     (case readJson f of
        Some v \<Rightarrow> (v, s)
      | None \<Rightarrow> (case wr padrao s of None \<Rightarrow> (padrao, s) | Some s' \<Rightarrow> (padrao, s')))"

definition lerEventos :: "fs \<Rightarrow> item list \<times> fs" where
  "lerEventos s = ler_com_padrao (eventos_json s) write_eventos [] s"

definition lerNoticias :: "fs \<Rightarrow> item list \<times> fs" where
  "lerNoticias s = ler_com_padrao (noticias_json s) write_noticias [] s"

definition adminDefault :: "ambiente \<Rightarrow> admin list" where
  "adminDefault amb =
     [\<lparr>admin_id = 1,
       nome = ''Administrador Principal'',
       email = (if truthy_str (ADMIN_EMAIL amb) then the (ADMIN_EMAIL amb)
                else ''admin@blockchaininsper.com.br''),
       senha = bcrypt_hash amb (if truthy_str (ADMIN_PASSWORD amb) then the (ADMIN_PASSWORD amb)
                else ''BlockchainInsper2024!''),
       role = ''super_admin'',
       ativo = True,
       criadoEm = agora amb 0,
       atualizadoEm = agora amb 1,
       ultimoLogin = None\<rparr>]"

definition lerAdmins :: "ambiente \<Rightarrow> fs \<Rightarrow> admin list \<times> fs" where
  "lerAdmins amb s = ler_com_padrao (admins_json s) write_admins (adminDefault amb) s"

text \<open>
  The default contact document. Its letters outside ASCII are the code units 0xE1 (a
  with acute), 0xED (i with acute), 0xE3 (a with tilde) and 0xE0 (a with grave).
\<close>

definition contatosDefault :: "ambiente \<Rightarrow> contatos" where
  "contatosDefault amb =
     \<lparr>c_email = JStr ''contato@blockchaininsper.com.br'',
      c_telefone = JStr ''(11) 3000-0000'',
      c_endereco = JStr (''Rua Quat'' @ [CHR 0xE1] @ '', 300 - Vila Ol'' @ [CHR 0xED]
          @ ''mpia, S'' @ [CHR 0xE3] @ ''o Paulo - SP, 04546-042''),
      c_horarioFuncionamento = JStr (''Segunda a Sexta: 8h '' @ [CHR 0xE0] @ ''s 18h''),
      c_redesSociais = JObj
         [(''linkedin'', JStr ''https://linkedin.com/company/blockchain-insper''),
          (''instagram'', JStr ''https://instagram.com/blockchaininsper''),
          (''twitter'', JStr ''https://twitter.com/blockchaininsper'')],
      c_atualizadoEm = agora amb 0\<rparr>"

definition lerContatos :: "ambiente \<Rightarrow> fs \<Rightarrow> contatos \<times> fs" where
  "lerContatos amb s = ler_com_padrao (contatos_json s) write_contatos (contatosDefault amb) s"

text \<open>\<open>lerMensagens\<close>: the \<open>catch\<close> returns \<open>[]\<close> and writes nothing.\<close>

definition lerMensagens :: "fs \<Rightarrow> mensagem list \<times> fs" where
  "lerMensagens s =
     (case readJson (mensagens_json s) of Some v \<Rightarrow> (v, s) | None \<Rightarrow> ([], s))"

text \<open>
  \<open>readJsonFile(filePath, defaultValue)\<close> of \<open>routes/admin.js\<close>: the write in the \<open>catch\<close>
  is not guarded, so its rejection leaves the function (\<open>None\<close>) and reaches the
  caller's \<open>catch\<close>.
\<close>

definition readJsonFile ::
  "'v arquivo \<Rightarrow> ('v \<Rightarrow> fs \<Rightarrow> fs option) \<Rightarrow> 'v \<Rightarrow> fs \<Rightarrow> ('v \<times> fs) option" where
  "readJsonFile f wr defaultValue s =
     (case readJson f of
        Some v \<Rightarrow> Some (v, s)
      | None \<Rightarrow> (case wr defaultValue s of None \<Rightarrow> None | Some s' \<Rightarrow> Some (defaultValue, s')))"

section \<open>Array helpers\<close>

text \<open>\<open>xs.findIndex(p)\<close>: \<open>None\<close> is the result \<open>-1\<close>.\<close>

fun findIndex :: "('a \<Rightarrow> bool) \<Rightarrow> 'a list \<Rightarrow> nat option" where
  "findIndex p [] = None"
| "findIndex p (x # xs) =
     (if p x then Some 0 else (case findIndex p xs of None \<Rightarrow> None | Some i \<Rightarrow> Some (Suc i)))"

text \<open>\<open>xs.splice(i, 1)\<close>: the list without its element at index \<open>i\<close>.\<close>

definition splice1 :: "nat \<Rightarrow> 'a list \<Rightarrow> 'a list" where
  "splice1 i xs = take i xs @ drop (Suc i) xs"

text \<open>
  \<open>x + 1\<close> in the arithmetic of doubles, for an integer \<open>x \<ge> 0\<close> that a double holds.
  Below \<open>2^53\<close> the sum is exact. From \<open>2^53\<close> on, neighbouring doubles are at least 2
  apart: the sum is rounded to the nearest double, and to the one with the even
  significand when it lies half-way. So the result is \<open>x\<close> itself, except that it is
  \<open>x + 2\<close> when \<open>x < 2^54\<close> and the significand \<open>x / 2\<close> of \<open>x\<close> is odd.
\<close>

definition mais_um :: "int \<Rightarrow> int" where
  "mais_um x =
     (if x < 2 ^ 53 then x + 1 else if x < 2 ^ 54 \<and> odd (x div 2) then x + 2 else x)"

text \<open>
  \<open>Math.max(...ids, 0) + 1\<close>: the call has one argument for each id and one for \<open>0\<close>.
  With more arguments than the engine accepts the spread throws a \<open>RangeError\<close>
  (\<open>None\<close>); otherwise the result is the maximum of the ids and \<open>0\<close>, plus one.
\<close>

definition novoId :: "nat \<Rightarrow> int list \<Rightarrow> int option" where
  "novoId limite ids =
     (if limite < length ids + 1 then None else Some (mais_um (foldr max ids 0)))"

text \<open>
  The route parameter \<open>:id\<close> is given by the value of \<open>parseInt(id)\<close>: \<open>Some n\<close>, or
  \<open>None\<close> for \<open>NaN\<close>, which is equal to no stored id.
\<close>

section \<open>Events: \<open>routes/eventos.js\<close>\<close>

definition imagem_padrao_evento :: string where
  "imagem_padrao_evento =
     ''https://images.unsplash.com/photo-1560472354-b33ff0c44a43?ixlib=rb-4.0.3&auto=format&fit=crop&w=1000&q=80''"

text \<open>
  \<open>POST /api/eventos\<close>. A \<open>RangeError\<close> of the id computation reaches the handler's
  \<open>catch\<close>, which answers 500; so it does in the other three create handlers.
\<close>

definition criar_evento ::
  "ambiente \<Rightarrow> (string \<rightharpoonup> json) \<Rightarrow> fs \<Rightarrow> item response \<times> fs" where
  "criar_evento amb body s =
     (if \<not> truthy (body ''titulo'') \<or> \<not> truthy (body ''descricao'') \<or> \<not> truthy (body ''data'')
         \<or> \<not> truthy (body ''local'') \<or> \<not> truthy (body ''categoria'')
      then (Response 400 None, s)
      else
        let (eventos, s1) = lerEventos s in
        case novoId (max_args amb) (map item_id eventos) of
          None \<Rightarrow> (Response 500 None, s1)
        | Some novo \<Rightarrow>
            let novoEvento =
                  \<lparr>item_id = novo,
                   campos =
                     [''titulo'' \<mapsto> the (body ''titulo''),
                      ''descricao'' \<mapsto> the (body ''descricao''),
                      ''data'' \<mapsto> the (body ''data''),
                      ''dataFormatada'' \<mapsto> JStr (toLocaleDateString amb (the (body ''data''))),
                      ''local'' \<mapsto> the (body ''local''),
                      ''participantes'' \<mapsto> js_or (body ''participantes'') (JStr ''0''),
                      ''categoria'' \<mapsto> the (body ''categoria''),
                      ''imagem'' \<mapsto> js_or (body ''imagem'') (JStr imagem_padrao_evento),
                      ''destaque'' \<mapsto> (case body ''destaque'' of None \<Rightarrow> JBool False | Some v \<Rightarrow> v),
                      ''ativo'' \<mapsto> JBool True,
                      ''criadoEm'' \<mapsto> JStr (agora amb 0),
                      ''atualizadoEm'' \<mapsto> JStr (agora amb 1)]\<rparr>;
                (salvou, s2) = salvarEventos (eventos @ [novoEvento]) s1
            in if \<not> salvou then (Response 500 None, s2)
               else (Response 201 (Some novoEvento), s2))"

definition camposPermitidos_evento :: "string list" where
  "camposPermitidos_evento =
     [''titulo'', ''descricao'', ''data'', ''local'', ''participantes'',
      ''categoria'', ''imagem'', ''destaque'', ''ativo'']"

text \<open>
  \<open>camposPermitidos.forEach(campo => { if (updateData[campo] !== undefined)
  obj[campo] = updateData[campo] })\<close>.
\<close>

definition aplicar_campos ::
  "string list \<Rightarrow> (string \<rightharpoonup> json) \<Rightarrow> (string \<rightharpoonup> json) \<Rightarrow> (string \<rightharpoonup> json)" where
  "aplicar_campos permitidos updateData obj =
     foldl (\<lambda>ob campo. case updateData campo of None \<Rightarrow> ob | Some v \<Rightarrow> ob(campo \<mapsto> v))
       obj permitidos"

text \<open>
  The body shared by \<open>PUT /api/eventos/:id\<close> and \<open>PUT /api/noticias/:id\<close> once the entity
  is found: the whitelist loop, the derived date, the stamp.
\<close>

definition atualizar_item ::
  "ambiente \<Rightarrow> string list \<Rightarrow> (string \<rightharpoonup> json) \<Rightarrow> item \<Rightarrow> item" where
  "atualizar_item amb permitidos updateData e =
     (let c1 = aplicar_campos permitidos updateData (campos e);
          c2 = (if truthy (updateData ''data'')
                then c1(''dataFormatada'' \<mapsto>
                       JStr (toLocaleDateString amb (the (updateData ''data''))))
                else c1)
      in e\<lparr>campos := c2(''atualizadoEm'' \<mapsto> JStr (agora amb 0))\<rparr>)"

text \<open>\<open>PUT /api/eventos/:id\<close>.\<close>

definition atualizar_evento ::
  "ambiente \<Rightarrow> int option \<Rightarrow> (string \<rightharpoonup> json) \<Rightarrow> fs \<Rightarrow> item response \<times> fs" where
  "atualizar_evento amb pid updateData s =
     (let (eventos, s1) = lerEventos s in
      case findIndex (\<lambda>e. Some (item_id e) = pid) eventos of
        None \<Rightarrow> (Response 404 None, s1)
      | Some i \<Rightarrow>
          let e = atualizar_item amb camposPermitidos_evento updateData (eventos ! i);
              (salvou, s2) = salvarEventos (eventos[i := e]) s1
          in if \<not> salvou then (Response 500 None, s2) else (Response 200 (Some e), s2))"

text \<open>The soft delete shared by \<open>DELETE /api/eventos/:id\<close> and \<open>DELETE /api/noticias/:id\<close>.\<close>

definition desativar_item :: "ambiente \<Rightarrow> item \<Rightarrow> item" where
  "desativar_item amb e =
     e\<lparr>campos := (campos e)(''ativo'' \<mapsto> JBool False, ''atualizadoEm'' \<mapsto> JStr (agora amb 0))\<rparr>"

text \<open>\<open>DELETE /api/eventos/:id\<close>.\<close>

definition excluir_evento :: "ambiente \<Rightarrow> int option \<Rightarrow> fs \<Rightarrow> unit response \<times> fs" where
  "excluir_evento amb pid s =
     (let (eventos, s1) = lerEventos s in
      case findIndex (\<lambda>e. Some (item_id e) = pid) eventos of
        None \<Rightarrow> (Response 404 None, s1)
      | Some i \<Rightarrow>
          let (salvou, s2) = salvarEventos (eventos[i := desativar_item amb (eventos ! i)]) s1
          in if \<not> salvou then (Response 500 None, s2) else (Response 200 None, s2))"

section \<open>News: \<open>routes/noticias.js\<close>\<close>

definition imagem_padrao_noticia :: string where
  "imagem_padrao_noticia =
     ''https://images.unsplash.com/photo-1639762681485-074b7f938ba0?ixlib=rb-4.0.3&auto=format&fit=crop&w=1000&q=80''"

text \<open>
  \<open>POST /api/noticias\<close>. \<open>dataNoticia = data || new Date().toISOString().split('T')[0]\<close>:
  the part of the instant before its first \<open>T\<close>.
\<close>

definition criar_noticia ::
  "ambiente \<Rightarrow> (string \<rightharpoonup> json) \<Rightarrow> fs \<Rightarrow> item response \<times> fs" where
  "criar_noticia amb body s =
     (if \<not> truthy (body ''titulo'') \<or> \<not> truthy (body ''resumo'') \<or> \<not> truthy (body ''conteudo'')
         \<or> \<not> truthy (body ''autor'') \<or> \<not> truthy (body ''categoria'')
      then (Response 400 None, s)
      else
        let (noticias, s1) = lerNoticias s in
        case novoId (max_args amb) (map item_id noticias) of
          None \<Rightarrow> (Response 500 None, s1)
        | Some novo \<Rightarrow>
            let dataNoticia =
                  js_or (body ''data'') (JStr (takeWhile (\<lambda>c. c \<noteq> CHR ''T'') (agora amb 0)));
                novaNoticia =
                  \<lparr>item_id = novo,
                   campos =
                     [''titulo'' \<mapsto> the (body ''titulo''),
                      ''resumo'' \<mapsto> the (body ''resumo''),
                      ''conteudo'' \<mapsto> the (body ''conteudo''),
                      ''data'' \<mapsto> dataNoticia,
                      ''dataFormatada'' \<mapsto> JStr (toLocaleDateString amb dataNoticia),
                      ''autor'' \<mapsto> the (body ''autor''),
                      ''categoria'' \<mapsto> the (body ''categoria''),
                      ''imagem'' \<mapsto> js_or (body ''imagem'') (JStr imagem_padrao_noticia),
                      ''link'' \<mapsto> js_or (body ''link'') (JStr ''#''),
                      ''destaque'' \<mapsto> (case body ''destaque'' of None \<Rightarrow> JBool False | Some v \<Rightarrow> v),
                      ''ativo'' \<mapsto> JBool True,
                      ''criadoEm'' \<mapsto> JStr (agora amb 1),
                      ''atualizadoEm'' \<mapsto> JStr (agora amb 2)]\<rparr>;
                (salvou, s2) = salvarNoticias (noticias @ [novaNoticia]) s1
            in if \<not> salvou then (Response 500 None, s2)
               else (Response 201 (Some novaNoticia), s2))"

definition camposPermitidos_noticia :: "string list" where
  "camposPermitidos_noticia =
     [''titulo'', ''resumo'', ''conteudo'', ''data'', ''autor'',
      ''categoria'', ''imagem'', ''link'', ''destaque'', ''ativo'']"

text \<open>\<open>PUT /api/noticias/:id\<close>.\<close>

definition atualizar_noticia ::
  "ambiente \<Rightarrow> int option \<Rightarrow> (string \<rightharpoonup> json) \<Rightarrow> fs \<Rightarrow> item response \<times> fs" where
  "atualizar_noticia amb pid updateData s =
     (let (noticias, s1) = lerNoticias s in
      case findIndex (\<lambda>n. Some (item_id n) = pid) noticias of
        None \<Rightarrow> (Response 404 None, s1)
      | Some i \<Rightarrow>
          let n = atualizar_item amb camposPermitidos_noticia updateData (noticias ! i);
              (salvou, s2) = salvarNoticias (noticias[i := n]) s1
          in if \<not> salvou then (Response 500 None, s2) else (Response 200 (Some n), s2))"

text \<open>\<open>DELETE /api/noticias/:id\<close>.\<close>

definition excluir_noticia :: "ambiente \<Rightarrow> int option \<Rightarrow> fs \<Rightarrow> unit response \<times> fs" where
  "excluir_noticia amb pid s =
     (let (noticias, s1) = lerNoticias s in
      case findIndex (\<lambda>n. Some (item_id n) = pid) noticias of
        None \<Rightarrow> (Response 404 None, s1)
      | Some i \<Rightarrow>
          let (salvou, s2) = salvarNoticias (noticias[i := desativar_item amb (noticias ! i)]) s1
          in if \<not> salvou then (Response 500 None, s2) else (Response 200 None, s2))"

section \<open>Access control: \<open>middlewares/auth.js\<close>\<close>

text \<open>
  \<open>jwt.verify\<close> is external: a request carries no token, a token that does not verify,
  or a token that verifies to a user payload.
\<close>

record usuario =
  usuario_id :: int
  usuario_email :: string
  usuario_role :: string
  usuario_nome :: string

datatype credencial = SemToken | TokenInvalido | TokenValido usuario

definition authenticateToken :: "credencial \<Rightarrow> nat + usuario" where
  "authenticateToken c =
     (case c of SemToken \<Rightarrow> Inl 401 | TokenInvalido \<Rightarrow> Inl 403 | TokenValido u \<Rightarrow> Inr u)"

definition requireAdmin :: "usuario \<Rightarrow> nat + usuario" where
  "requireAdmin u =
     (if usuario_role u \<noteq> ''admin'' \<and> usuario_role u \<noteq> ''super_admin'' then Inl 403 else Inr u)"

text \<open>A route declared as \<open>router.verb(path, authenticateToken, requireAdmin, handler)\<close>.\<close>

definition rota_admin ::
  "credencial \<Rightarrow> (fs \<Rightarrow> 'd response \<times> fs) \<Rightarrow> fs \<Rightarrow> 'd response \<times> fs" where
  "rota_admin c handler s =
     (case authenticateToken c of
        Inl st \<Rightarrow> (Response st None, s)
      | Inr u \<Rightarrow>
          (case requireAdmin u of
             Inl st \<Rightarrow> (Response st None, s)
           | Inr u' \<Rightarrow> handler s))"

section \<open>Administrators: \<open>routes/admins.js\<close>\<close>

text \<open>
  The pattern \<open>/^[^\s@]+@[^\s@]+\.[^\s@]+$/\<close>: a non-empty part without white space and
  \<open>@\<close>, one \<open>@\<close>, and a part without white space and \<open>@\<close> that has a dot with at
  least one character before and after it. The members of \<open>\s\<close> among the code units
  below 256 are the space, tab, line feed, vertical tab, form feed, carriage return and
  the no-break space 0xA0.
\<close>

definition espaco :: "char \<Rightarrow> bool" where
  "espaco c =
     (c \<in> set [CHR '' '', CHR 0x09, CHR 0x0A, CHR 0x0B, CHR 0x0C, CHR 0x0D, CHR 0xA0])"

definition emailRegex :: "string \<Rightarrow> bool" where
  "emailRegex e =
     (let l = takeWhile (\<lambda>c. c \<noteq> CHR ''@'') e;
          r = dropWhile (\<lambda>c. c \<noteq> CHR ''@'') e;
          d = tl r
      in l \<noteq> [] \<and> list_all (\<lambda>c. \<not> espaco c) l \<and> r \<noteq> []
         \<and> list_all (\<lambda>c. \<not> espaco c \<and> c \<noteq> CHR ''@'') d
         \<and> list_ex (\<lambda>i. d ! i = CHR ''.'') [1 ..< length d - 1])"

text \<open>\<open>POST /api/admins\<close>. The two clock readings 0 and 1 are those of \<open>lerAdmins\<close>.\<close>

definition criar_admin ::
  "ambiente \<Rightarrow> string option \<Rightarrow> string option \<Rightarrow> string option \<Rightarrow> string option \<Rightarrow> fs
     \<Rightarrow> unit response \<times> fs" where
  "criar_admin amb p_nome p_email p_senha p_role s =
     (if \<not> truthy_str p_nome \<or> \<not> truthy_str p_email \<or> \<not> truthy_str p_senha
      then (Response 400 None, s)
      else if \<not> emailRegex (the p_email) then (Response 400 None, s)
      else if length (the p_senha) < 8 then (Response 400 None, s)
      else
        let (admins, s1) = lerAdmins amb s in
        if find (\<lambda>a. email a = the p_email) admins \<noteq> None then (Response 400 None, s1)
        else
          case novoId (max_args amb) (map admin_id admins) of
            None \<Rightarrow> (Response 500 None, s1)
          | Some novo \<Rightarrow>
              let novoAdmin =
                    \<lparr>admin_id = novo,
                     nome = the p_nome,
                     email = the p_email,
                     senha = bcrypt_hash amb (the p_senha),
                     role = (case p_role of None \<Rightarrow> ''admin'' | Some r \<Rightarrow> r),
                     ativo = True,
                     criadoEm = agora amb 2,
                     atualizadoEm = agora amb 3,
                     ultimoLogin = None\<rparr>;
                  (salvou, s2) = salvarAdmins (admins @ [novoAdmin]) s1
              in if \<not> salvou then (Response 500 None, s2) else (Response 201 None, s2))"

text \<open>
  \<open>PUT /api/admins/:id\<close>. \<open>p_ativo\<close> is \<open>Some b\<close> exactly when \<open>typeof ativo === 'boolean'\<close>.
\<close>

definition aplicar_admin ::
  "ambiente \<Rightarrow> string option \<Rightarrow> string option \<Rightarrow> string option \<Rightarrow> bool option \<Rightarrow> admin
     \<Rightarrow> admin" where
  "aplicar_admin amb p_nome p_email p_role p_ativo a =
     (let a1 = (if truthy_str p_nome then a\<lparr>nome := the p_nome\<rparr> else a);
          a2 = (if truthy_str p_email then a1\<lparr>email := the p_email\<rparr> else a1);
          a3 = (if truthy_str p_role then a2\<lparr>role := the p_role\<rparr> else a2);
          a4 = (case p_ativo of None \<Rightarrow> a3 | Some b \<Rightarrow> a3\<lparr>ativo := b\<rparr>)
      in a4\<lparr>atualizadoEm := agora amb 2\<rparr>)"

definition atualizar_admin ::
  "ambiente \<Rightarrow> int option \<Rightarrow> string option \<Rightarrow> string option \<Rightarrow> string option
     \<Rightarrow> bool option \<Rightarrow> fs \<Rightarrow> unit response \<times> fs" where
  "atualizar_admin amb pid p_nome p_email p_role p_ativo s =
     (let (admins, s1) = lerAdmins amb s in
      case findIndex (\<lambda>a. Some (admin_id a) = pid) admins of
        None \<Rightarrow> (Response 404 None, s1)
      | Some i \<Rightarrow>
          if role (admins ! i) = ''super_admin'' \<and> p_ativo = Some False
             \<and> filter (\<lambda>a. role a = ''super_admin'' \<and> ativo a \<and> Some (admin_id a) \<noteq> pid) admins = []
          then (Response 400 None, s1)
          else if truthy_str p_email \<and> the p_email \<noteq> email (admins ! i)
             \<and> find (\<lambda>a. email a = the p_email \<and> Some (admin_id a) \<noteq> pid) admins \<noteq> None
          then (Response 400 None, s1)
          else
            let (salvou, s2) =
                  salvarAdmins
                    (admins[i := aplicar_admin amb p_nome p_email p_role p_ativo (admins ! i)]) s1
            in if \<not> salvou then (Response 500 None, s2) else (Response 200 None, s2))"

text \<open>\<open>DELETE /api/admins/:id\<close>.\<close>

definition excluir_admin :: "ambiente \<Rightarrow> int option \<Rightarrow> fs \<Rightarrow> unit response \<times> fs" where
  "excluir_admin amb pid s =
     (let (admins, s1) = lerAdmins amb s in
      case findIndex (\<lambda>a. Some (admin_id a) = pid) admins of
        None \<Rightarrow> (Response 404 None, s1)
      | Some i \<Rightarrow>
          if role (admins ! i) = ''super_admin''
             \<and> filter (\<lambda>a. role a = ''super_admin'' \<and> Some (admin_id a) \<noteq> pid) admins = []
          then (Response 400 None, s1)
          else
            let (salvou, s2) = salvarAdmins (splice1 i admins) s1
            in if \<not> salvou then (Response 500 None, s2) else (Response 200 None, s2))"

text \<open>\<open>PUT /api/admins/:id/password\<close>: the handler, and the route behind its middlewares.\<close>

definition alterar_senha_admin ::
  "ambiente \<Rightarrow> int option \<Rightarrow> string option \<Rightarrow> fs \<Rightarrow> unit response \<times> fs" where
  "alterar_senha_admin amb pid novaSenha s =
     (if \<not> truthy_str novaSenha \<or> length (the novaSenha) < 8 then (Response 400 None, s)
      else
        let (admins, s1) = lerAdmins amb s in
        case findIndex (\<lambda>a. Some (admin_id a) = pid) admins of
          None \<Rightarrow> (Response 404 None, s1)
        | Some i \<Rightarrow>
            let a = (admins ! i)\<lparr>senha := bcrypt_hash amb (the novaSenha),
                                  atualizadoEm := agora amb 2\<rparr>;
                (salvou, s2) = salvarAdmins (admins[i := a]) s1
            in if \<not> salvou then (Response 500 None, s2) else (Response 200 None, s2))"

definition put_admins_id_password ::
  "credencial \<Rightarrow> ambiente \<Rightarrow> int option \<Rightarrow> string option \<Rightarrow> fs \<Rightarrow> unit response \<times> fs" where
  "put_admins_id_password c amb pid novaSenha =
     rota_admin c (alterar_senha_admin amb pid novaSenha)"

section \<open>Login and own password: \<open>routes/auth.js\<close>\<close>

text \<open>
  \<open>POST /api/auth/login\<close>. The result of \<open>await salvarAdmins(admins)\<close> is dropped; the
  payload of the signed token is the response's data.
\<close>

definition login ::
  "ambiente \<Rightarrow> string option \<Rightarrow> string option \<Rightarrow> fs \<Rightarrow> usuario response \<times> fs" where
  "login amb p_email password s =
     (if \<not> truthy_str p_email \<or> \<not> truthy_str password then (Response 400 None, s)
      else
        let (admins, s1) = lerAdmins amb s in
        case find (\<lambda>a. email a = the p_email \<and> ativo a) admins of
          None \<Rightarrow> (Response 401 None, s1)
        | Some adm \<Rightarrow>
            if \<not> bcrypt_compare amb (the password) (senha adm) then (Response 401 None, s1)
            else
              let s2 =
                    (case findIndex (\<lambda>a. admin_id a = admin_id adm) admins of
                       None \<Rightarrow> s1
                     | Some i \<Rightarrow>
                         snd (salvarAdmins
                                (admins[i := (admins ! i)\<lparr>ultimoLogin := Some (agora amb 2)\<rparr>]) s1))
              in (Response 200
                    (Some \<lparr>usuario_id = admin_id adm, usuario_email = email adm,
                           usuario_role = role adm, usuario_nome = nome adm\<rparr>), s2))"

text \<open>\<open>POST /api/auth/change-password\<close>, for the user of a verified token.\<close>

definition change_password ::
  "ambiente \<Rightarrow> usuario \<Rightarrow> string option \<Rightarrow> string option \<Rightarrow> fs \<Rightarrow> unit response \<times> fs" where
  "change_password amb u currentPassword newPassword s =
     (if \<not> truthy_str currentPassword \<or> \<not> truthy_str newPassword then (Response 400 None, s)
      else if length (the newPassword) < 8 then (Response 400 None, s)
      else
        let (admins, s1) = lerAdmins amb s in
        case findIndex (\<lambda>a. admin_id a = usuario_id u) admins of
          None \<Rightarrow> (Response 404 None, s1)
        | Some i \<Rightarrow>
            if \<not> bcrypt_compare amb (the currentPassword) (senha (admins ! i))
            then (Response 401 None, s1)
            else
              let a = (admins ! i)\<lparr>senha := bcrypt_hash amb (the newPassword),
                                    atualizadoEm := agora amb 2\<rparr>;
                  (salvou, s2) = salvarAdmins (admins[i := a]) s1
              in if \<not> salvou then (Response 500 None, s2) else (Response 200 None, s2))"

section \<open>Contact data and messages: \<open>routes/contatos.js\<close>\<close>

text \<open>\<open>PUT /api/contatos\<close>.\<close>

definition atualizar_contatos ::
  "ambiente \<Rightarrow> (string \<rightharpoonup> json) \<Rightarrow> fs \<Rightarrow> contatos response \<times> fs" where
  "atualizar_contatos amb body s =
     (if \<not> truthy (body ''email'') \<or> \<not> truthy (body ''telefone'') \<or> \<not> truthy (body ''endereco'')
      then (Response 400 None, s)
      else
        let contatosAtualizados =
              \<lparr>c_email = the (body ''email''),
               c_telefone = the (body ''telefone''),
               c_endereco = the (body ''endereco''),
               c_horarioFuncionamento =
                  js_or (body ''horarioFuncionamento'')
                    (JStr (''Segunda a Sexta: 8h '' @ [CHR 0xE0] @ ''s 18h'')),
               c_redesSociais = js_or (body ''redesSociais'') (JObj []),
               c_atualizadoEm = agora amb 0\<rparr>;
            (salvou, s1) = salvarContatos contatosAtualizados s
        in if \<not> salvou then (Response 500 None, s1)
           else (Response 200 (Some contatosAtualizados), s1))"

text \<open>\<open>POST /api/contatos/mensagem\<close>. The ids are read as \<open>m.id || 0\<close>.\<close>

definition enviar_mensagem ::
  "ambiente \<Rightarrow> string option \<Rightarrow> string option \<Rightarrow> string option \<Rightarrow> fs
     \<Rightarrow> int response \<times> fs" where
  "enviar_mensagem amb p_nome p_email p_mensagem s =
     (if \<not> truthy_str p_nome \<or> \<not> truthy_str p_email \<or> \<not> truthy_str p_mensagem
      then (Response 400 None, s)
      else if \<not> emailRegex (the p_email) then (Response 400 None, s)
      else
        let (mensagens, s1) = lerMensagens s in
        case novoId (max_args amb)
               (map (\<lambda>m. if msg_id m = 0 then 0 else msg_id m) mensagens) of
          None \<Rightarrow> (Response 500 None, s1)
        | Some novo \<Rightarrow>
            let novaMensagem =
                  \<lparr>msg_id = novo,
                   msg_nome = the p_nome,
                   msg_email = the p_email,
                   msg_mensagem = the p_mensagem,
                   dataEnvio = agora amb 0,
                   lida = False,
                   respondida = False,
                   atualizadaEm = None\<rparr>;
                (salvou, s2) = salvarMensagens (mensagens @ [novaMensagem]) s1
            in if \<not> salvou then (Response 500 None, s2)
               else (Response 200 (Some (msg_id novaMensagem)), s2))"

text \<open>
  \<open>PUT /api/contatos/mensagens/:id\<close>; \<open>p_lida\<close> and \<open>p_respondida\<close> are \<open>Some b\<close> exactly
  when the body's value is a boolean.
\<close>

definition atualizar_mensagem ::
  "ambiente \<Rightarrow> int option \<Rightarrow> bool option \<Rightarrow> bool option \<Rightarrow> fs \<Rightarrow> mensagem response \<times> fs" where
  "atualizar_mensagem amb pid p_lida p_respondida s =
     (let (mensagens, s1) = lerMensagens s in
      case findIndex (\<lambda>m. Some (msg_id m) = pid) mensagens of
        None \<Rightarrow> (Response 404 None, s1)
      | Some i \<Rightarrow>
          let m1 = (case p_lida of None \<Rightarrow> mensagens ! i | Some b \<Rightarrow> (mensagens ! i)\<lparr>lida := b\<rparr>);
              m2 = (case p_respondida of None \<Rightarrow> m1 | Some b \<Rightarrow> m1\<lparr>respondida := b\<rparr>);
              m3 = m2\<lparr>atualizadaEm := Some (agora amb 0)\<rparr>;
              (salvou, s2) = salvarMensagens (mensagens[i := m3]) s1
          in if \<not> salvou then (Response 500 None, s2) else (Response 200 (Some m3), s2))"

text \<open>\<open>DELETE /api/contatos/mensagens/:id\<close>.\<close>

definition excluir_mensagem :: "int option \<Rightarrow> fs \<Rightarrow> mensagem response \<times> fs" where
  "excluir_mensagem pid s =
     (let (mensagens, s1) = lerMensagens s in
      case findIndex (\<lambda>m. Some (msg_id m) = pid) mensagens of
        None \<Rightarrow> (Response 404 None, s1)
      | Some i \<Rightarrow>
          let mensagemRemovida = mensagens ! i;
              (salvou, s2) = salvarMensagens (splice1 i mensagens) s1
          in if \<not> salvou then (Response 500 None, s2)
             else (Response 200 (Some mensagemRemovida), s2))"

section \<open>Backup and restore: \<open>routes/admin.js\<close>\<close>

text \<open>\<open>new Date().toISOString().replace(/[:.]/g, '-')\<close>.\<close>

definition encode_timestamp :: "string \<Rightarrow> string" where
  "encode_timestamp t = map (\<lambda>c. if c = CHR '':'' \<or> c = CHR ''.'' then CHR ''-'' else c) t"

text \<open>
  \<open>POST /api/admin/backup\<close>. The two live files are read with \<open>fs.readFile\<close> and
  \<open>JSON.parse\<close> directly, so a missing or unparseable file ends in the handler's
  \<open>catch\<close>. Creating the backup directory is not modelled. The data of the response
  is the file name and the inner timestamp.
\<close>

definition criar_backup :: "ambiente \<Rightarrow> fs \<Rightarrow> (string \<times> string) response \<times> fs" where
  "criar_backup amb s =
     (let ts = encode_timestamp (agora amb 0) in
      case readJson (eventos_json s) of
        None \<Rightarrow> (Response 500 None, s)
      | Some evs \<Rightarrow>
          (case readJson (noticias_json s) of
             None \<Rightarrow> (Response 500 None, s)
           | Some nts \<Rightarrow>
               let bk = \<lparr>timestamp = agora amb 1, eventos = Some evs, noticias = Some nts\<rparr>;
                   backupFilename = ''backup-'' @ ts @ ''.json''
               in case write_backup backupFilename bk s of
                    None \<Rightarrow> (Response 500 None, s)
                  | Some s1 \<Rightarrow> (Response 200 (Some (backupFilename, timestamp bk)), s1)))"

text \<open>\<open>s.split(c)\<close> with a one-character separator.\<close>

fun split_on :: "char \<Rightarrow> string \<Rightarrow> string list" where
  "split_on c [] = [[]]"
| "split_on c (x # xs) =
     (if x = c then [] # split_on c xs
      else (case split_on c xs of [] \<Rightarrow> [[x]] | w # ws \<Rightarrow> (x # w) # ws))"

text \<open>
  \<open>path.normalize\<close> on the segments of an absolute POSIX path. The path walked so far
  is a stack, its last segment first: an empty segment and \<open>.\<close> change nothing, \<open>..\<close>
  removes the last segment, and nothing at the root.
\<close>

fun normalizar :: "string list \<Rightarrow> string list \<Rightarrow> string list" where
  "normalizar [] pilha = pilha"
| "normalizar (seg # segs) pilha =
     (if seg = [] \<or> seg = ''.'' then normalizar segs pilha
      else if seg = ''..'' then normalizar segs (tl pilha)
      else normalizar segs (seg # pilha))"

text \<open>
  \<open>path.join(__dirname, '../backups', filename)\<close>, where \<open>__dirname\<close> is the directory
  \<open>routes\<close> of the application \<open>app\<close>: the segments of the resulting absolute path, and
  whether it ends in a separator, which it does exactly when \<open>filename\<close> does. The
  name is not sanitised.
\<close>

definition backupPath :: "string list \<Rightarrow> string \<Rightarrow> string list \<times> bool" where
  "backupPath app filename =
     (rev (normalizar (''..'' # ''backups'' # split_on (CHR ''/'') filename)
             (''routes'' # rev app)),
      filename \<noteq> [] \<and> last filename = CHR ''/'')"

text \<open>
  A data file seen by the restore handler: its array, or the contact document, has no
  property \<open>eventos\<close> and no property \<open>noticias\<close>.
\<close>

definition sem_propriedades ::
  "'a arquivo \<Rightarrow> (item list option \<times> item list option) arquivo" where
  "sem_propriedades f =
     (case f of Missing \<Rightarrow> Missing | Corrupt \<Rightarrow> Corrupt | Content v \<Rightarrow> Content (None, None))"

text \<open>
  What the restore handler meets at \<open>backupPath\<close>: \<open>Missing\<close> when \<open>fs.access\<close> rejects,
  \<open>Corrupt\<close> when \<open>fs.readFile\<close>, \<open>JSON.parse\<close> or the property access throws, and
  otherwise the properties \<open>eventos\<close> and \<open>noticias\<close> of the parsed document. A path
  with a final separator names a directory or nothing and is looked up in \<open>outros\<close>.
\<close>

definition no_caminho :: "fs \<Rightarrow> string \<Rightarrow> (item list option \<times> item list option) arquivo" where
  "no_caminho s filename =
     (let (p, barra) = backupPath (raiz s) filename in
      if barra then outros s (p, True)
      else if p = raiz s @ [''data'', ''eventos.json''] then sem_propriedades (eventos_json s)
      else if p = raiz s @ [''data'', ''noticias.json''] then sem_propriedades (noticias_json s)
      else if p = raiz s @ [''data'', ''admins.json''] then sem_propriedades (admins_json s)
      else if p = raiz s @ [''data'', ''contatos.json''] then sem_propriedades (contatos_json s)
      else if p = raiz s @ [''data'', ''mensagens.json'']
      then sem_propriedades (mensagens_json s)
      else if p = raiz s @ [''backups'', last p] then
        (case backups s (last p) of
           Missing \<Rightarrow> Missing
         | Corrupt \<Rightarrow> Corrupt
         | Content bk \<Rightarrow> Content (eventos bk, noticias bk))
      else outros s (p, False))"

text \<open>
  \<open>POST /api/admin/restore\<close>; the body's \<open>filename\<close> is a string or absent. A document
  whose \<open>eventos\<close> or \<open>noticias\<close> is absent fails \<open>!backup.eventos || !backup.noticias\<close>;
  an array is always truthy. The data of the response is \<open>restoredFrom\<close> and
  \<open>backupCreated\<close>.
\<close>

definition restaurar_backup ::
  "ambiente \<Rightarrow> string option \<Rightarrow> fs \<Rightarrow> (string \<times> string) response \<times> fs" where
  "restaurar_backup amb filename s =
     (if \<not> truthy_str filename then (Response 400 None, s)
      else
        case no_caminho s (the filename) of
          Missing \<Rightarrow> (Response 404 None, s)
        | Corrupt \<Rightarrow> (Response 500 None, s)
        | Content bk \<Rightarrow>
            if fst bk = None \<or> snd bk = None then (Response 400 None, s)
            else
              let ts = encode_timestamp (agora amb 0) in
              case readJson (eventos_json s) of
                None \<Rightarrow> (Response 500 None, s)
              | Some currentEventos \<Rightarrow>
                  (case readJson (noticias_json s) of
                     None \<Rightarrow> (Response 500 None, s)
                   | Some currentNoticias \<Rightarrow>
                       let currentBackup =
                             \<lparr>timestamp = agora amb 1, eventos = Some currentEventos,
                              noticias = Some currentNoticias\<rparr>;
                           currentBackupFilename = ''backup-before-restore-'' @ ts @ ''.json''
                       in case write_backup currentBackupFilename currentBackup s of
                            None \<Rightarrow> (Response 500 None, s)
                          | Some s1 \<Rightarrow>
                              (case write_eventos (the (fst bk)) s1 of
                                 None \<Rightarrow> (Response 500 None, s1)
                               | Some s2 \<Rightarrow>
                                   (case write_noticias (the (snd bk)) s2 of
                                      None \<Rightarrow> (Response 500 None, s2)
                                    | Some s3 \<Rightarrow>
                                        (Response 200
                                           (Some (the filename, currentBackupFilename)), s3)))))"

subsection \<open>Listing: the timestamp read back from a file name\<close>

text \<open>\<open>s.replace(pat, rep)\<close> with a string pattern: the first occurrence only.\<close>

fun replace_first :: "string \<Rightarrow> string \<Rightarrow> string \<Rightarrow> string" where
  "replace_first pat rep [] = (if pat = [] then rep else [])"
| "replace_first pat rep (c # cs) =
     (if take (length pat) (c # cs) = pat then rep @ drop (length pat) (c # cs)
      else c # replace_first pat rep cs)"

text \<open>
  The filter of \<open>GET /api/admin/backups\<close>:
  \<open>file.startsWith('backup-') && file.endsWith('.json')\<close>.
\<close>

definition is_backup_file :: "string \<Rightarrow> bool" where
  "is_backup_file f =
     (take 7 f = ''backup-'' \<and> 5 \<le> length f \<and> drop (length f - 5) f = ''.json'')"

text \<open>
  The body of the \<open>map\<close> callback up to \<open>new Date(isoString)\<close>: the result is the string
  handed to the \<open>Date\<close> constructor.
\<close>

definition parse_backup_timestamp :: "string \<Rightarrow> string" where
  "parse_backup_timestamp f =
     (let ts = replace_first ''.json'' [] (replace_first ''backup-'' [] f) in
      if CHR ''T'' \<in> set ts \<and> CHR ''Z'' \<in> set ts then
        let parts = split_on (CHR ''T'') ts;
            datePart = parts ! 0;
            timePart = replace_first ''Z'' [] (parts ! 1);
            timeComponents = split_on (CHR ''-'') timePart;
            timePart' =
              (if length timeComponents = 4
               then timeComponents ! 0 @ '':'' @ timeComponents ! 1 @ '':''
                    @ timeComponents ! 2 @ ''.'' @ timeComponents ! 3
               else map (\<lambda>c. if c = CHR ''-'' then CHR '':'' else c) timePart)
        in datePart @ ''T'' @ timePart' @ ''Z''
      else map (\<lambda>c. if c = CHR ''-'' then CHR '':'' else c) ts)"

section \<open>Observations used in the statements\<close>

text \<open>The invariant of the administrators collection: some entry is an active super_admin.\<close>

definition has_active_super_admin :: "admin list \<Rightarrow> bool" where
  "has_active_super_admin xs = list_ex (\<lambda>a. role a = ''super_admin'' \<and> ativo a) xs"

text \<open>The value stored under a key of the entity with a given id, in a collection file.\<close>

definition campo_armazenado :: "item list arquivo \<Rightarrow> int \<Rightarrow> string \<Rightarrow> json option" where
  "campo_armazenado f i k =
     (case f of
        Content xs \<Rightarrow> (case find (\<lambda>e. item_id e = i) xs of Some e \<Rightarrow> campos e k | None \<Rightarrow> None)
      | Missing \<Rightarrow> None
      | Corrupt \<Rightarrow> None)"

text \<open>Requests handled one after the other, each on the state its predecessor left.\<close>

fun em_sequencia :: "('q \<Rightarrow> fs \<Rightarrow> 'r \<times> fs) \<Rightarrow> 'q list \<Rightarrow> fs \<Rightarrow> 'r list \<times> fs" where
  "em_sequencia h [] s = ([], s)"
| "em_sequencia h (q # qs) s =
     (let (r, s1) = h q s; (rs, s2) = em_sequencia h qs s1 in (r # rs, s2))"

text \<open>How many of the responses report success.\<close>

definition sucessos :: "'d response list \<Rightarrow> nat" where
  "sucessos rs = length (filter (\<lambda>r. status r = 200 \<or> status r = 201) rs)"

text \<open>
  The same state with every path writable, and the status a handler gives when its
  save fails where it would have answered 200 or 201.
\<close>

definition gravavel :: "fs \<Rightarrow> fs" where
  "gravavel s = s\<lparr>unwritable := {}\<rparr>"

definition storage_failure :: "nat \<Rightarrow> nat" where
  "storage_failure st = (if st = 200 \<or> st = 201 then 500 else st)"

section \<open>Example data\<close>

text \<open>
  A concrete environment and concrete states, used where a statement is evaluated at an
  input.
\<close>

definition instante0 :: instante where
  "instante0 = Abs_instante ''2025-08-28T21:30:45.123Z''"

definition instante1 :: instante where
  "instante1 = Abs_instante ''2025-08-28T21:30:45.124Z''"

definition amb0 :: ambiente where
  "amb0 =
     \<lparr>relogio = (\<lambda>k. if k = 0 then instante0 else instante1),
      max_args = 120000,
      bcrypt_hash = (\<lambda>p. ''$2a$10$'' @ p),
      bcrypt_compare = (\<lambda>p h. h = ''$2a$10$'' @ p),
      toLocaleDateString = (\<lambda>d. ''28 de agosto de 2025''),
      ADMIN_EMAIL = None,
      ADMIN_PASSWORD = None\<rparr>"

definition evento1 :: item where
  "evento1 =
     \<lparr>item_id = 1,
      campos = [''titulo'' \<mapsto> JStr ''Meetup'', ''ativo'' \<mapsto> JBool True,
                ''criadoEm'' \<mapsto> JStr ''2025-01-01T00:00:00.000Z'']\<rparr>"

text \<open>
  A fresh installation in \<open>/srv/app\<close>: the directories exist, no data file and no backup
  does.
\<close>

definition fs_vazio :: fs where
  "fs_vazio =
     \<lparr>raiz = [''srv'', ''app''],
      eventos_json = Missing, noticias_json = Missing, admins_json = Missing,
      contatos_json = Missing, mensagens_json = Missing, backups = (\<lambda>n. Missing),
      outros = (\<lambda>(p, barra).
                  if p \<in> set [[], [''srv''], [''srv'', ''app''], [''srv'', ''app'', ''routes''],
                               [''srv'', ''app'', ''data''], [''srv'', ''app'', ''backups'']]
                  then Corrupt else Missing),
      unwritable = {}, written = []\<rparr>"

definition fs1 :: fs where
  "fs1 = fs_vazio\<lparr>eventos_json := Content [evento1], noticias_json := Content []\<rparr>"

definition fs2 :: fs where
  "fs2 =
     fs1\<lparr>backups := (\<lambda>n. if n = ''backup-a.json''
                              then Content \<lparr>timestamp = ''2025-01-02T00:00:00.000Z'',
                                            eventos = Some [], noticias = Some []\<rparr>
                              else Missing)\<rparr>"

text \<open>
  The state \<open>fs2\<close> with one more file, \<open>/srv/app/uploads/x.json\<close>, that holds a document
  with an empty \<open>eventos\<close> and an empty \<open>noticias\<close> array.
\<close>

definition fs9 :: fs where
  "fs9 =
     fs2\<lparr>outros := (\<lambda>k. if k = ([''srv'', ''app'', ''uploads'', ''x.json''], False)
                           then Content (Some [], Some []) else outros fs2 k)\<rparr>"

text \<open>A state whose only event has the id \<open>2^53\<close>.\<close>

definition evento_grande :: item where
  "evento_grande =
     \<lparr>item_id = 9007199254740992,
      campos = [''titulo'' \<mapsto> JStr ''Meetup'', ''ativo'' \<mapsto> JBool True]\<rparr>"

definition fs10 :: fs where
  "fs10 = fs_vazio\<lparr>eventos_json := Content [evento_grande]\<rparr>"

definition body0 :: "string \<rightharpoonup> json" where
  "body0 = [''titulo'' \<mapsto> JStr ''Hackathon'', ''descricao'' \<mapsto> JStr ''Dois dias'',
            ''data'' \<mapsto> JStr ''2025-09-20'', ''local'' \<mapsto> JStr ''Insper'',
            ''categoria'' \<mapsto> JStr ''Evento'']"

definition adm1 :: admin where
  "adm1 = \<lparr>admin_id = 1, nome = ''Administrador Principal'', email = ''admin@blockchaininsper.com.br'',
            senha = ''$2a$10$BlockchainInsper2024!'', role = ''super_admin'', ativo = True,
            criadoEm = ''2025-01-01T00:00:00.000Z'', atualizadoEm = ''2025-01-01T00:00:00.000Z'',
            ultimoLogin = None\<rparr>"

definition adm2 :: admin where
  "adm2 = \<lparr>admin_id = 2, nome = ''Ana'', email = ''ana@insper.edu.br'',
            senha = ''$2a$10$segredo-da-ana'', role = ''admin'', ativo = True,
            criadoEm = ''2025-02-01T00:00:00.000Z'', atualizadoEm = ''2025-02-01T00:00:00.000Z'',
            ultimoLogin = None\<rparr>"

definition adm3 :: admin where
  "adm3 = \<lparr>admin_id = 3, nome = ''Rui'', email = ''rui@insper.edu.br'',
            senha = ''$2a$10$segredo-do-rui'', role = ''super_admin'', ativo = False,
            criadoEm = ''2025-03-01T00:00:00.000Z'', atualizadoEm = ''2025-03-01T00:00:00.000Z'',
            ultimoLogin = None\<rparr>"

definition ana :: usuario where
  "ana = \<lparr>usuario_id = 2, usuario_email = ''ana@insper.edu.br'', usuario_role = ''admin'',
           usuario_nome = ''Ana''\<rparr>"

definition fs3 :: fs where
  "fs3 = fs_vazio\<lparr>admins_json := Content [adm1, adm2]\<rparr>"

definition fs4 :: fs where
  "fs4 = fs_vazio\<lparr>admins_json := Content [adm1, adm3]\<rparr>"

definition fs5 :: fs where
  "fs5 = fs3\<lparr>unwritable := {ADMINS_FILE}\<rparr>"

definition fs6 :: fs where
  "fs6 = fs1\<lparr>unwritable := {EVENTOS_FILE}\<rparr>"

definition noticia1 :: item where
  "noticia1 =
     \<lparr>item_id = 1,
      campos = [''titulo'' \<mapsto> JStr ''Nova diretoria'', ''ativo'' \<mapsto> JBool True,
                ''dataFormatada'' \<mapsto> JStr ''1 de janeiro de 2025'']\<rparr>"

definition bodyN :: "string \<rightharpoonup> json" where
  "bodyN = [''titulo'' \<mapsto> JStr ''Resultado'', ''resumo'' \<mapsto> JStr ''Resumo'',
            ''conteudo'' \<mapsto> JStr ''Texto'', ''autor'' \<mapsto> JStr ''Ana'',
            ''categoria'' \<mapsto> JStr ''Geral'']"

definition bodyC :: "string \<rightharpoonup> json" where
  "bodyC = [''email'' \<mapsto> JStr ''contato@insper.edu.br'', ''telefone'' \<mapsto> JStr ''(11) 4504-2400'',
            ''endereco'' \<mapsto> JStr ''Rua Quata, 300'']"

definition fs7 :: fs where
  "fs7 = fs3\<lparr>eventos_json := Content [evento1], noticias_json := Content [noticia1],
              unwritable := {EVENTOS_FILE, NOTICIAS_FILE, ADMINS_FILE, CONTATOS_FILE,
                             MENSAGENS_FILE}\<rparr>"

definition fs8 :: fs where
  "fs8 = fs3\<lparr>eventos_json := Content [evento1], noticias_json := Content [noticia1]\<rparr>"

section \<open>Basic facts\<close>

subsection \<open>Strings\<close>

lemma split_on_notin: "c \<notin> set xs \<Longrightarrow> split_on c xs = [xs]"
  by (induction xs) auto

lemma split_on_first: "c \<notin> set xs \<Longrightarrow> split_on c (xs @ c # ys) = xs # split_on c ys"
  by (induction xs) auto

lemma replace_first_notin:
  "c \<notin> set xs \<Longrightarrow> replace_first (c # p) r (xs @ (c # p) @ ys) = xs @ r @ ys"
  by (induction xs) auto

lemma replace_first_prefix: "p \<noteq> [] \<Longrightarrow> replace_first p r (p @ ys) = r @ ys"
  by (cases p) auto

lemma digito_neq:
  "digito c \<Longrightarrow>
     c \<noteq> CHR ''-'' \<and> c \<noteq> CHR ''T'' \<and> c \<noteq> CHR ''Z'' \<and> c \<noteq> CHR '':'' \<and> c \<noteq> CHR ''.''"
  by (auto simp: digito_def)

text \<open>The shape of an instant, with its fourteen trailing characters named.\<close>

lemma iso_shape:
  assumes "is_iso_instant t"
  shows "\<exists>d h1 h2 m1 m2 s1 s2 a b c.
    t = d @ [CHR ''T'', h1, h2, CHR '':'', m1, m2, CHR '':'', s1, s2, CHR ''.'', a, b, c, CHR ''Z'']
    \<and> list_all (\<lambda>c. digito c \<or> c = CHR ''-'' \<or> c = CHR ''+'') d
    \<and> digito h1 \<and> digito h2 \<and> digito m1 \<and> digito m2 \<and> digito s1 \<and> digito s2
    \<and> digito a \<and> digito b \<and> digito c"
proof -
  define d where "d = take (length t - 14) t"
  define u where "u = drop (length t - 14) t"
  have len: "length u = 14" using assms by (simp add: is_iso_instant_def u_def)
  have t: "t = d @ u" by (simp add: d_def u_def)
  from len obtain x0 x1 x2 x3 x4 x5 x6 x7 x8 x9 x10 x11 x12 x13 where
    u: "u = [x0,x1,x2,x3,x4,x5,x6,x7,x8,x9,x10,x11,x12,x13]"
    by (auto simp: length_Suc_conv eval_nat_numeral)
  from assms have "list_all (\<lambda>c. digito c \<or> c = CHR ''-'' \<or> c = CHR ''+'') d \<and>
         u ! 0 = CHR ''T'' \<and> digito (u ! 1) \<and> digito (u ! 2) \<and> u ! 3 = CHR '':'' \<and>
         digito (u ! 4) \<and> digito (u ! 5) \<and> u ! 6 = CHR '':'' \<and>
         digito (u ! 7) \<and> digito (u ! 8) \<and> u ! 9 = CHR ''.'' \<and>
         digito (u ! 10) \<and> digito (u ! 11) \<and> digito (u ! 12) \<and> u ! 13 = CHR ''Z''"
    unfolding is_iso_instant_def Let_def d_def u_def by blast
  with u have facts:
    "list_all (\<lambda>c. digito c \<or> c = CHR ''-'' \<or> c = CHR ''+'') d"
    "x0 = CHR ''T''" "digito x1" "digito x2" "x3 = CHR '':''" "digito x4" "digito x5"
    "x6 = CHR '':''" "digito x7" "digito x8" "x9 = CHR ''.''" "digito x10" "digito x11"
    "digito x12" "x13 = CHR ''Z''"
    by (simp_all add: eval_nat_numeral)
  have "t = d @ [CHR ''T'', x1, x2, CHR '':'', x4, x5, CHR '':'', x7, x8, CHR ''.'', x10, x11, x12, CHR ''Z'']"
    using t u facts by simp
  with facts show ?thesis by blast
qed

lemma date_chars:
  assumes "list_all (\<lambda>c. digito c \<or> c = CHR ''-'' \<or> c = CHR ''+'') d"
  shows "CHR ''T'' \<notin> set d" "CHR ''Z'' \<notin> set d" "CHR ''.'' \<notin> set d" "encode_timestamp d = d"
  using assms by (induction d) (auto simp: digito_def encode_timestamp_def)

lemma decode_encode_shape:
  assumes t: "t = d @ [CHR ''T'', h1, h2, CHR '':'', m1, m2, CHR '':'', s1, s2, CHR ''.'', a, b, c, CHR ''Z'']"
    and d: "list_all (\<lambda>c. digito c \<or> c = CHR ''-'' \<or> c = CHR ''+'') d"
    and dg: "digito h1" "digito h2" "digito m1" "digito m2" "digito s1" "digito s2"
            "digito a" "digito b" "digito c"
  shows "parse_backup_timestamp (''backup-'' @ encode_timestamp t @ ''.json'') = t"
proof -
  note dc = date_chars [OF d]
  note ne = dg [THEN digito_neq]
  define tm where "tm = [h1, h2, CHR ''-'', m1, m2, CHR ''-'', s1, s2, CHR ''-'', a, b, c]"
  have enc: "encode_timestamp t = d @ CHR ''T'' # tm @ ''Z''"
    unfolding t tm_def using ne dc(4) by (simp add: encode_timestamp_def)
  have nodot: "CHR ''.'' \<notin> set (d @ CHR ''T'' # tm @ ''Z'')"
    using ne dc(3) by (auto simp: tm_def)
  have r1: "replace_first ''backup-'' [] (''backup-'' @ encode_timestamp t @ ''.json'')
            = encode_timestamp t @ ''.json''"
    by (rule replace_first_prefix [where r = "[]", simplified]) simp
  have r2: "replace_first ''.json'' [] (encode_timestamp t @ ''.json'') = d @ CHR ''T'' # tm @ ''Z''"
    using replace_first_notin [OF nodot, of "''json''" "[]" "[]"] by (simp add: enc)
  have sp: "split_on (CHR ''T'') (d @ CHR ''T'' # tm @ ''Z'') = [d, tm @ ''Z'']"
    using ne by (simp add: split_on_first [OF dc(1)] split_on_notin tm_def)
  have r3: "replace_first ''Z'' [] (tm @ ''Z'') = tm"
    using ne replace_first_notin [of "CHR ''Z''" tm "[]" "[]" "[]"] by (simp add: tm_def)
  have sp2: "split_on (CHR ''-'') tm = [[h1, h2], [m1, m2], [s1, s2], [a, b, c]]"
    using ne by (simp add: tm_def)
  show ?thesis
    unfolding parse_backup_timestamp_def r1 r2 Let_def sp
    by (simp add: r3 sp2 t)
qed

lemma email_ok: "emailRegex ''ana@insper.edu.br''"
  by code_simp

subsection \<open>Clock readings and the names built from them\<close>

lemma agora_iso: "is_iso_instant (agora amb k)"
  using toISOString [of "relogio amb k"] by (simp add: agora_def)

lemma iso_sem_barra:
  assumes "is_iso_instant t"
  shows "CHR ''/'' \<notin> set t"
proof -
  from iso_shape [OF assms] obtain d u where t: "t = d @ u"
    and d: "list_all (\<lambda>c. digito c \<or> c = CHR ''-'' \<or> c = CHR ''+'') d"
    and u: "\<forall>c \<in> set u. digito c \<or> c \<in> set ''T:.Z''"
    by fastforce
  from d have "CHR ''/'' \<notin> set d" by (auto simp: list_all_iff digito_def)
  moreover from u have "CHR ''/'' \<notin> set u" by (auto simp: digito_def)
  ultimately show ?thesis by (simp add: t)
qed

lemma encode_sem_barra: "CHR ''/'' \<notin> set t \<Longrightarrow> CHR ''/'' \<notin> set (encode_timestamp t)"
  by (auto simp: encode_timestamp_def)

lemma amb0_simps:
  "agora amb0 k = (if k = 0 then ''2025-08-28T21:30:45.123Z'' else ''2025-08-28T21:30:45.124Z'')"
  "max_args amb0 = 120000"
  "bcrypt_hash amb0 p = ''$2a$10$'' @ p"
  "bcrypt_compare amb0 p h = (h = ''$2a$10$'' @ p)"
  "toLocaleDateString amb0 j = ''28 de agosto de 2025''"
  "ADMIN_EMAIL amb0 = None"
  "ADMIN_PASSWORD amb0 = None"
  by (simp_all add: amb0_def agora_def instante0_def instante1_def Abs_instante_inverse
      is_iso_instant_def digito_def)

subsection \<open>Paths\<close>

text \<open>
  A name without separator that is neither empty nor \<open>.\<close> nor \<open>..\<close> is joined to the
  entry of that name in the backup directory.
\<close>

lemma backupPath_simples:
  assumes "name \<noteq> []" "CHR ''/'' \<notin> set name" "name \<noteq> ''.''" "name \<noteq> ''..''"
  shows "backupPath app name = (app @ [''backups'', name], False)"
proof -
  from assms(1,2) have "last name \<noteq> CHR ''/''" using last_in_set by metis
  with assms show ?thesis by (simp add: backupPath_def split_on_notin)
qed

lemma no_caminho_simples:
  assumes "name \<noteq> []" "CHR ''/'' \<notin> set name" "name \<noteq> ''.''" "name \<noteq> ''..''"
  shows "no_caminho s name =
           (case backups s name of
              Missing \<Rightarrow> Missing
            | Corrupt \<Rightarrow> Corrupt
            | Content bk \<Rightarrow> Content (eventos bk, noticias bk))"
  by (simp add: no_caminho_def backupPath_simples [OF assms])

lemma no_caminho_backup:
  "no_caminho s (''backup-'' @ encode_timestamp (agora amb k) @ ''.json'') =
     (case backups s (''backup-'' @ encode_timestamp (agora amb k) @ ''.json'') of
        Missing \<Rightarrow> Missing
      | Corrupt \<Rightarrow> Corrupt
      | Content bk \<Rightarrow> Content (eventos bk, noticias bk))"
proof (rule no_caminho_simples)
  show "CHR ''/'' \<notin> set (''backup-'' @ encode_timestamp (agora amb k) @ ''.json'')"
    using encode_sem_barra [OF iso_sem_barra [OF agora_iso [of amb k]]] by simp
qed simp_all

subsection \<open>Updates\<close>

lemma aplicar_campos_get:
  "aplicar_campos cs upd obj k =
     (if k \<in> set cs then (case upd k of None \<Rightarrow> obj k | Some v \<Rightarrow> Some v) else obj k)"
  unfolding aplicar_campos_def
  by (induction cs arbitrary: obj) (auto split: option.splits)

lemma campos_atualizar_item:
  "campos (atualizar_item amb cs upd e) k =
     (if k = ''atualizadoEm'' then Some (JStr (agora amb 0))
      else if k = ''dataFormatada'' \<and> truthy (upd ''data'')
      then Some (JStr (toLocaleDateString amb (the (upd ''data''))))
      else aplicar_campos cs upd (campos e) k)"
  by (simp add: atualizar_item_def Let_def)

lemma atualizar_item_frame:
  assumes "''dataFormatada'' \<notin> set cs" "''atualizadoEm'' \<notin> set cs"
  shows "item_id (atualizar_item amb cs upd e) = item_id e"
    and "k \<in> set cs \<Longrightarrow> campos (atualizar_item amb cs upd e) k
           = (case upd k of None \<Rightarrow> campos e k | Some v \<Rightarrow> Some v)"
    and "k \<notin> set cs \<Longrightarrow> k \<noteq> ''dataFormatada'' \<Longrightarrow> k \<noteq> ''atualizadoEm''
           \<Longrightarrow> campos (atualizar_item amb cs upd e) k = campos e k"
    and "\<not> truthy (upd ''data'') \<Longrightarrow>
           campos (atualizar_item amb cs upd e) ''dataFormatada'' = campos e ''dataFormatada''"
proof -
  show "item_id (atualizar_item amb cs upd e) = item_id e"
    by (simp add: atualizar_item_def Let_def)
  show "campos (atualizar_item amb cs upd e) k
           = (case upd k of None \<Rightarrow> campos e k | Some v \<Rightarrow> Some v)" if k: "k \<in> set cs"
  proof -
    from k assms have "k \<noteq> ''dataFormatada''" "k \<noteq> ''atualizadoEm''" by blast+
    with k show ?thesis unfolding campos_atualizar_item aplicar_campos_get by (simp only: if_True if_False simp_thms)
  qed
  show "campos (atualizar_item amb cs upd e) k = campos e k"
    if k: "k \<notin> set cs" "k \<noteq> ''dataFormatada''" "k \<noteq> ''atualizadoEm''"
    using k unfolding campos_atualizar_item aplicar_campos_get by (simp only: if_True if_False simp_thms)
  show "campos (atualizar_item amb cs upd e) ''dataFormatada'' = campos e ''dataFormatada''"
    if d: "\<not> truthy (upd ''data'')"
  proof -
    have ne: "''dataFormatada'' \<noteq> ''atualizadoEm''" by simp
    from d ne assms show ?thesis
      unfolding campos_atualizar_item aplicar_campos_get by (simp only: if_True if_False simp_thms)
  qed
qed

lemma atualizar_evento_ok:
  assumes "status (fst (atualizar_evento amb pid upd s)) = 200"
  shows "\<exists>i. findIndex (\<lambda>e. Some (item_id e) = pid) (fst (lerEventos s)) = Some i
     \<and> eventos_json (snd (atualizar_evento amb pid upd s))
         = Content ((fst (lerEventos s))
              [i := atualizar_item amb camposPermitidos_evento upd (fst (lerEventos s) ! i)])"
  using assms
  by (auto simp: atualizar_evento_def split_beta salvarEventos_def
      salvar_def write_eventos_def writeFile_def Let_def
      split: option.splits if_splits)

lemma atualizar_noticia_ok:
  assumes "status (fst (atualizar_noticia amb pid upd s)) = 200"
  shows "\<exists>i. findIndex (\<lambda>e. Some (item_id e) = pid) (fst (lerNoticias s)) = Some i
     \<and> noticias_json (snd (atualizar_noticia amb pid upd s))
         = Content ((fst (lerNoticias s))
              [i := atualizar_item amb camposPermitidos_noticia upd (fst (lerNoticias s) ! i)])"
  using assms
  by (auto simp: atualizar_noticia_def split_beta salvarNoticias_def
      salvar_def write_noticias_def writeFile_def Let_def
      split: option.splits if_splits)

lemma atualizar_admin_ok:
  assumes "status (fst (atualizar_admin amb pid p_nome p_email p_role p_ativo s)) = 200"
  shows "\<exists>i. findIndex (\<lambda>a. Some (admin_id a) = pid) (fst (lerAdmins amb s)) = Some i
     \<and> admins_json (snd (atualizar_admin amb pid p_nome p_email p_role p_ativo s))
         = Content ((fst (lerAdmins amb s))
              [i := aplicar_admin amb p_nome p_email p_role p_ativo (fst (lerAdmins amb s) ! i)])"
  using assms
  by (auto simp: atualizar_admin_def split_beta salvarAdmins_def
      salvar_def write_admins_def writeFile_def Let_def
      split: option.splits if_splits)

lemma aplicar_admin_frame:
  "admin_id (aplicar_admin amb p_nome p_email p_role p_ativo a) = admin_id a"
  "senha (aplicar_admin amb p_nome p_email p_role p_ativo a) = senha a"
  "criadoEm (aplicar_admin amb p_nome p_email p_role p_ativo a) = criadoEm a"
  "ultimoLogin (aplicar_admin amb p_nome p_email p_role p_ativo a) = ultimoLogin a"
  "nome (aplicar_admin amb p_nome p_email p_role p_ativo a)
     = (if truthy_str p_nome then the p_nome else nome a)"
  "email (aplicar_admin amb p_nome p_email p_role p_ativo a)
     = (if truthy_str p_email then the p_email else email a)"
  "role (aplicar_admin amb p_nome p_email p_role p_ativo a)
     = (if truthy_str p_role then the p_role else role a)"
  "ativo (aplicar_admin amb p_nome p_email p_role p_ativo a)
     = (case p_ativo of None \<Rightarrow> ativo a | Some b \<Rightarrow> b)"
  by (auto simp: aplicar_admin_def Let_def split: option.splits)

subsection \<open>Saving to a file that cannot be written\<close>

lemma salvar_unwritable:
  "EVENTOS_FILE \<in> unwritable s \<Longrightarrow> salvarEventos v1 s = (False, s)"
  "NOTICIAS_FILE \<in> unwritable s \<Longrightarrow> salvarNoticias v2 s = (False, s)"
  "ADMINS_FILE \<in> unwritable s \<Longrightarrow> salvarAdmins v3 s = (False, s)"
  "CONTATOS_FILE \<in> unwritable s \<Longrightarrow> salvarContatos v4 s = (False, s)"
  "MENSAGENS_FILE \<in> unwritable s \<Longrightarrow> salvarMensagens v5 s = (False, s)"
  by (simp_all add: salvarEventos_def salvarNoticias_def salvarAdmins_def salvarContatos_def
      salvarMensagens_def salvar_def write_eventos_def write_noticias_def write_admins_def
      write_contatos_def write_mensagens_def writeFile_def)

lemma ler_unwritable:
  "EVENTOS_FILE \<in> unwritable s \<Longrightarrow> snd (lerEventos s) = s"
  "NOTICIAS_FILE \<in> unwritable s \<Longrightarrow> snd (lerNoticias s) = s"
  "ADMINS_FILE \<in> unwritable s \<Longrightarrow> snd (lerAdmins amb s) = s"
  "snd (lerMensagens s) = s"
  by (simp_all add: lerEventos_def lerNoticias_def lerAdmins_def lerMensagens_def
      ler_com_padrao_def write_eventos_def write_noticias_def write_admins_def writeFile_def
      split: option.splits)

lemma eventos_save_checked:
  assumes "EVENTOS_FILE \<in> unwritable s"
  shows "status (fst (criar_evento amb body s)) \<in> {400, 500} \<and> snd (criar_evento amb body s) = s"
    and "status (fst (atualizar_evento amb pid upd s)) \<in> {404, 500}
         \<and> snd (atualizar_evento amb pid upd s) = s"
    and "status (fst (excluir_evento amb pid s)) \<in> {404, 500} \<and> snd (excluir_evento amb pid s) = s"
  using assms
  by (simp_all add: criar_evento_def atualizar_evento_def excluir_evento_def split_beta Let_def
      ler_unwritable salvar_unwritable split: option.splits)

lemma noticias_save_checked:
  assumes "NOTICIAS_FILE \<in> unwritable s"
  shows "status (fst (criar_noticia amb body s)) \<in> {400, 500} \<and> snd (criar_noticia amb body s) = s"
    and "status (fst (atualizar_noticia amb pid upd s)) \<in> {404, 500}
         \<and> snd (atualizar_noticia amb pid upd s) = s"
    and "status (fst (excluir_noticia amb pid s)) \<in> {404, 500} \<and> snd (excluir_noticia amb pid s) = s"
  using assms
  by (simp_all add: criar_noticia_def atualizar_noticia_def excluir_noticia_def split_beta Let_def
      ler_unwritable salvar_unwritable split: option.splits)

lemma admins_save_checked:
  assumes "ADMINS_FILE \<in> unwritable s"
  shows "status (fst (criar_admin amb p_nome p_email p_senha p_role s)) \<in> {400, 500}
         \<and> snd (criar_admin amb p_nome p_email p_senha p_role s) = s"
    and "status (fst (atualizar_admin amb pid p_nome p_email p_role p_ativo s)) \<in> {400, 404, 500}
         \<and> snd (atualizar_admin amb pid p_nome p_email p_role p_ativo s) = s"
    and "status (fst (excluir_admin amb pid s)) \<in> {400, 404, 500} \<and> snd (excluir_admin amb pid s) = s"
    and "status (fst (alterar_senha_admin amb pid novaSenha s)) \<in> {400, 404, 500}
         \<and> snd (alterar_senha_admin amb pid novaSenha s) = s"
    and "status (fst (change_password amb u currentPassword newPassword s)) \<in> {400, 401, 404, 500}
         \<and> snd (change_password amb u currentPassword newPassword s) = s"
  using assms
  by (simp_all add: criar_admin_def atualizar_admin_def excluir_admin_def alterar_senha_admin_def
      change_password_def split_beta Let_def ler_unwritable salvar_unwritable split: option.splits)

lemma contatos_save_checked:
  "CONTATOS_FILE \<in> unwritable s \<Longrightarrow>
     status (fst (atualizar_contatos amb body s)) \<in> {400, 500} \<and> snd (atualizar_contatos amb body s) = s"
  "MENSAGENS_FILE \<in> unwritable s \<Longrightarrow>
     status (fst (enviar_mensagem amb p_nome p_email p_mensagem s)) \<in> {400, 500}
     \<and> snd (enviar_mensagem amb p_nome p_email p_mensagem s) = s"
  "MENSAGENS_FILE \<in> unwritable s \<Longrightarrow>
     status (fst (atualizar_mensagem amb pid p_lida p_respondida s)) \<in> {404, 500}
     \<and> snd (atualizar_mensagem amb pid p_lida p_respondida s) = s"
  "MENSAGENS_FILE \<in> unwritable s \<Longrightarrow>
     status (fst (excluir_mensagem pid s)) \<in> {404, 500} \<and> snd (excluir_mensagem pid s) = s"
  by (simp_all add: atualizar_contatos_def enviar_mensagem_def atualizar_mensagem_def
      excluir_mensagem_def split_beta Let_def ler_unwritable salvar_unwritable split: option.splits)

lemma login_ignores_save:
  assumes "truthy_str p_email" "truthy_str password"
    and "find (\<lambda>a. email a = the p_email \<and> ativo a) (fst (lerAdmins amb s)) = Some adm"
    and "bcrypt_compare amb (the password) (senha adm)"
  shows "status (fst (login amb p_email password s)) = 200"
  using assms by (simp add: login_def split_beta Let_def)

lemma ler_gravavel:
  "fst (lerEventos (gravavel s)) = fst (lerEventos s)"
  "fst (lerNoticias (gravavel s)) = fst (lerNoticias s)"
  "fst (lerAdmins amb (gravavel s)) = fst (lerAdmins amb s)"
  "fst (lerMensagens (gravavel s)) = fst (lerMensagens s)"
  by (simp_all add: gravavel_def lerEventos_def lerNoticias_def lerAdmins_def lerMensagens_def
      ler_com_padrao_def write_eventos_def write_noticias_def write_admins_def writeFile_def
      split: option.splits)

lemma salvar_gravavel:
  "fst (salvarEventos v1 (snd (lerEventos (gravavel s))))"
  "fst (salvarNoticias v2 (snd (lerNoticias (gravavel s))))"
  "fst (salvarAdmins v3 (snd (lerAdmins amb (gravavel s))))"
  "fst (salvarMensagens v5 (snd (lerMensagens (gravavel s))))"
  "fst (salvarContatos v4 (gravavel s))"
  by (simp_all add: gravavel_def lerEventos_def lerNoticias_def lerAdmins_def lerMensagens_def
      ler_com_padrao_def write_eventos_def write_noticias_def write_admins_def write_mensagens_def
      write_contatos_def writeFile_def
      salvarEventos_def salvarNoticias_def salvarAdmins_def salvarContatos_def
      salvarMensagens_def salvar_def
      split: option.splits)

lemma eventos_save_converted:
  assumes "EVENTOS_FILE \<in> unwritable s"
  shows "status (fst (criar_evento amb body s))
           = storage_failure (status (fst (criar_evento amb body (gravavel s))))"
    and "status (fst (atualizar_evento amb pid upd s))
           = storage_failure (status (fst (atualizar_evento amb pid upd (gravavel s))))"
    and "status (fst (excluir_evento amb pid s))
           = storage_failure (status (fst (excluir_evento amb pid (gravavel s))))"
  using assms
  by (simp_all add: criar_evento_def atualizar_evento_def excluir_evento_def split_beta Let_def
      ler_unwritable salvar_unwritable ler_gravavel salvar_gravavel storage_failure_def
      split: option.splits)

subsection \<open>Identifiers and sequences of creations\<close>

lemma foldr_max_Max: "foldr max ids (0::int) = Max (insert 0 (set ids))"
proof (induction ids)
  case Nil
  then show ?case by simp
next
  case (Cons a ids)
  have "Max (insert 0 (set (a # ids))) = Max (insert a (insert 0 (set ids)))"
    by (simp add: insert_commute)
  also have "\<dots> = max a (Max (insert 0 (set ids)))"
    by (rule Max_insert) simp_all
  finally show ?case using Cons by simp
qed

lemma foldr_max_nonneg: "0 \<le> foldr max ids (0::int)"
  by (induction ids) auto

lemma foldr_max_ge: "x \<in> set ids \<Longrightarrow> x \<le> foldr max ids (0::int)"
  by (induction ids) auto

lemma foldr_max_seguro: "\<forall>x \<in> set ids. x < c \<Longrightarrow> 0 < c \<Longrightarrow> foldr max ids (0::int) < c"
  by (induction ids) auto

lemma foldr_max_snoc: "foldr max (ids @ [y]) (0::int) = max (foldr max ids 0) (max y 0)"
  by (induction ids) auto

lemma mais_um_seguro: "x < 2 ^ 53 \<Longrightarrow> mais_um x = x + 1"
  by (simp add: mais_um_def)

lemma novoId_seguro:
  assumes "length ids < limite" and "\<forall>x \<in> set ids. x < 2 ^ 53"
  shows "novoId limite ids = Some (Max (insert 0 (set ids)) + 1)"
proof -
  from assms(2) have "foldr max ids 0 < (2::int) ^ 53" by (rule foldr_max_seguro) simp
  with assms(1) show ?thesis
    by (simp add: novoId_def mais_um_seguro foldr_max_Max)
qed

lemma seq_ids:
  fixes h :: "'q \<Rightarrow> fs \<Rightarrow> 'd response \<times> fs" and v :: "fs \<Rightarrow> int list"
  assumes step: "\<And>q s. status (fst (h q s)) = 200 \<or> status (fst (h q s)) = 201
                   \<Longrightarrow> v (snd (h q s)) = v s @ [mais_um (foldr max (v s) 0)]"
      and stay: "\<And>q s. \<not> (status (fst (h q s)) = 200 \<or> status (fst (h q s)) = 201)
                   \<Longrightarrow> v (snd (h q s)) = v s"
      and bound: "foldr max (v s) 0 + int (length qs) \<le> 2 ^ 53"
  shows "v (snd (em_sequencia h qs s))
           = v s @ map (\<lambda>k. foldr max (v s) 0 + 1 + int k)
                     [0 ..< sucessos (fst (em_sequencia h qs s))]"
  using bound
proof (induction qs arbitrary: s)
  case Nil
  then show ?case by (simp add: sucessos_def)
next
  case (Cons q qs)
  define m where "m = foldr max (v s) 0"
  from Cons.prems have b: "m + int (length qs) + 1 \<le> 2 ^ 53" by (simp add: m_def)
  have m0: "0 \<le> m" by (simp add: m_def foldr_max_nonneg)
  obtain r s1 where h: "h q s = (r, s1)" by (cases "h q s")
  obtain rs s2 where e: "em_sequencia h qs s1 = (rs, s2)" by (cases "em_sequencia h qs s1")
  show ?case
  proof (cases "status r = 200 \<or> status r = 201")
    case True
    from b have "m < 2 ^ 53" by simp
    then have mu: "mais_um m = m + 1" by (rule mais_um_seguro)
    from step [of q s] h True have v1: "v s1 = v s @ [m + 1]"
      by (simp add: mu [unfolded m_def] m_def)
    have m1: "foldr max (v s1) 0 = m + 1"
      unfolding v1 foldr_max_snoc using m0 by (simp add: m_def)
    have "foldr max (v s1) 0 + int (length qs) \<le> 2 ^ 53" using b by (simp add: m1)
    from Cons.IH [OF this] e
    have IH: "v s2 = v s1 @ map (\<lambda>k. m + 1 + 1 + int k) [0 ..< sucessos rs]"
      by (simp add: m1)
    have "map (\<lambda>k. m + 1 + int k) [0 ..< Suc (sucessos rs)]
            = (m + 1) # map (\<lambda>k. m + 1 + 1 + int k) [0 ..< sucessos rs]"
      by (simp add: upt_conv_Cons map_Suc_upt [symmetric] del: upt_Suc)
    with True IH v1 h e show ?thesis
      by (simp add: sucessos_def m_def [symmetric] del: upt_Suc)
  next
    case False
    with stay [of q s] h have v1: "v s1 = v s" by simp
    have "foldr max (v s1) 0 + int (length qs) \<le> 2 ^ 53" using b by (simp add: v1 m_def)
    from Cons.IH [OF this] e
    have "v s2 = v s1 @ map (\<lambda>k. m + 1 + int k) [0 ..< sucessos rs]"
      by (simp add: v1 m_def)
    with False v1 h e show ?thesis by (simp add: sucessos_def m_def [symmetric])
  qed
qed

lemma created_ids_increasing:
  "sorted_wrt (<) (map (\<lambda>k. m + int k) [0 ..< n])"
  by (simp add: sorted_wrt_map sorted_wrt_iff_nth_less)

lemma ler_after_write:
  "fst (lerEventos (s\<lparr>eventos_json := Content v1, written := w\<rparr>)) = v1"
  "fst (lerNoticias (s\<lparr>noticias_json := Content v2, written := w\<rparr>)) = v2"
  "fst (lerAdmins amb (s\<lparr>admins_json := Content v3, written := w\<rparr>)) = v3"
  "fst (lerMensagens (s\<lparr>mensagens_json := Content v4, written := w\<rparr>)) = v4"
  by (simp_all add: lerEventos_def lerNoticias_def lerAdmins_def lerMensagens_def
      ler_com_padrao_def readJson_def)

lemma ler_idem:
  "fst (lerEventos (snd (lerEventos s))) = fst (lerEventos s)"
  "fst (lerNoticias (snd (lerNoticias s))) = fst (lerNoticias s)"
  "map admin_id (fst (lerAdmins amb' (snd (lerAdmins amb s)))) = map admin_id (fst (lerAdmins amb s))"
  "fst (lerMensagens (snd (lerMensagens s))) = fst (lerMensagens s)"
  by (auto simp: lerEventos_def lerNoticias_def lerAdmins_def lerMensagens_def
      ler_com_padrao_def readJson_def write_eventos_def write_noticias_def write_admins_def
      writeFile_def adminDefault_def split: option.splits arquivo.splits)

lemma ids_admins_amb:
  "map admin_id (fst (lerAdmins amb' s)) = map admin_id (fst (lerAdmins amb s))"
  by (auto simp: lerAdmins_def ler_com_padrao_def readJson_def write_admins_def
      writeFile_def adminDefault_def split: option.splits arquivo.splits)

lemma salvar_eq:
  "salvarEventos v1 s = (if EVENTOS_FILE \<in> unwritable s then (False, s)
     else (True, s\<lparr>eventos_json := Content v1, written := written s @ [EVENTOS_FILE]\<rparr>))"
  "salvarNoticias v2 s = (if NOTICIAS_FILE \<in> unwritable s then (False, s)
     else (True, s\<lparr>noticias_json := Content v2, written := written s @ [NOTICIAS_FILE]\<rparr>))"
  "salvarAdmins v3 s = (if ADMINS_FILE \<in> unwritable s then (False, s)
     else (True, s\<lparr>admins_json := Content v3, written := written s @ [ADMINS_FILE]\<rparr>))"
  "salvarMensagens v4 s = (if MENSAGENS_FILE \<in> unwritable s then (False, s)
     else (True, s\<lparr>mensagens_json := Content v4, written := written s @ [MENSAGENS_FILE]\<rparr>))"
  by (simp_all add: salvarEventos_def salvarNoticias_def salvarAdmins_def
      salvarMensagens_def salvar_def write_eventos_def write_noticias_def write_admins_def
      write_mensagens_def writeFile_def)

lemma id_or_zero: "(\<lambda>m. if msg_id m = 0 then 0 else msg_id m) = msg_id"
  by auto

lemma criar_evento_cases:
  fixes amb body s
  defines "r \<equiv> criar_evento amb body s"
  defines "old \<equiv> fst (lerEventos s)"
  shows "(status (fst r) = 201 \<and> length old < max_args amb
          \<and> (\<exists>e. data (fst r) = Some e
                \<and> item_id e = mais_um (foldr max (map item_id old) 0)
                \<and> eventos_json (snd r) = Content (old @ [e])
                \<and> fst (lerEventos (snd r)) = old @ [e]))
       \<or> (status (fst r) \<noteq> 200 \<and> status (fst r) \<noteq> 201 \<and> fst (lerEventos (snd r)) = old)"
  unfolding r_def old_def
  by (auto simp: criar_evento_def split_beta Let_def ler_after_write ler_idem salvar_eq
      novoId_def)

lemma criar_noticia_cases:
  fixes amb body s
  defines "r \<equiv> criar_noticia amb body s"
  defines "old \<equiv> fst (lerNoticias s)"
  shows "(status (fst r) = 201 \<and> length old < max_args amb
          \<and> (\<exists>e. data (fst r) = Some e
                \<and> item_id e = mais_um (foldr max (map item_id old) 0)
                \<and> noticias_json (snd r) = Content (old @ [e])
                \<and> fst (lerNoticias (snd r)) = old @ [e]))
       \<or> (status (fst r) \<noteq> 200 \<and> status (fst r) \<noteq> 201 \<and> fst (lerNoticias (snd r)) = old)"
  unfolding r_def old_def
  by (auto simp: criar_noticia_def split_beta Let_def ler_after_write ler_idem salvar_eq
      novoId_def)

lemma criar_admin_cases:
  fixes amb p_nome p_email p_senha p_role s
  defines "r \<equiv> criar_admin amb p_nome p_email p_senha p_role s"
  defines "old \<equiv> fst (lerAdmins amb s)"
  shows "(status (fst r) = 201 \<and> length old < max_args amb
          \<and> (\<exists>a. admin_id a = mais_um (foldr max (map admin_id old) 0)
                \<and> admins_json (snd r) = Content (old @ [a])
                \<and> fst (lerAdmins amb' (snd r)) = old @ [a]))
       \<or> (status (fst r) \<noteq> 200 \<and> status (fst r) \<noteq> 201
           \<and> map admin_id (fst (lerAdmins amb' (snd r))) = map admin_id old)"
  unfolding r_def old_def
  by (auto simp: criar_admin_def split_beta Let_def ler_after_write ler_idem salvar_eq
      novoId_def ids_admins_amb [of amb' s amb])

lemma enviar_mensagem_cases:
  fixes amb p_nome p_email p_mensagem s
  defines "r \<equiv> enviar_mensagem amb p_nome p_email p_mensagem s"
  defines "old \<equiv> fst (lerMensagens s)"
  shows "(status (fst r) = 200 \<and> length old < max_args amb
          \<and> (\<exists>m. data (fst r) = Some (msg_id m)
                \<and> msg_id m = mais_um (foldr max (map msg_id old) 0)
                \<and> mensagens_json (snd r) = Content (old @ [m])
                \<and> fst (lerMensagens (snd r)) = old @ [m]))
       \<or> (status (fst r) \<noteq> 200 \<and> status (fst r) \<noteq> 201 \<and> fst (lerMensagens (snd r)) = old)"
  unfolding r_def old_def
  by (auto simp: enviar_mensagem_def split_beta Let_def ler_after_write ler_idem salvar_eq
      novoId_def id_or_zero)

lemma findIndex_snoc:
  "\<forall>x \<in> set xs. \<not> p x \<Longrightarrow> p y \<Longrightarrow> findIndex p (xs @ [y]) = Some (length xs)"
  by (induction xs) auto

lemma seq_eventos:
  assumes "foldr max (map item_id (fst (lerEventos s))) 0 + int (length qs) \<le> 2 ^ 53"
  shows "map item_id (fst (lerEventos (snd (em_sequencia (\<lambda>(amb, body). criar_evento amb body) qs s))))
     = map item_id (fst (lerEventos s))
       @ map (\<lambda>k. foldr max (map item_id (fst (lerEventos s))) 0 + 1 + int k)
           [0 ..< sucessos (fst (em_sequencia (\<lambda>(amb, body). criar_evento amb body) qs s))]"
proof (rule seq_ids [where v = "\<lambda>s. map item_id (fst (lerEventos s))", OF _ _ assms])
  fix q :: "ambiente \<times> (string \<rightharpoonup> json)" and s
  obtain amb body where q: "q = (amb, body)" by (cases q)
  note c = criar_evento_cases [of amb body s]
  show "map item_id (fst (lerEventos (snd ((case q of (amb, body) \<Rightarrow> criar_evento amb body) s))))
          = map item_id (fst (lerEventos s))
            @ [mais_um (foldr max (map item_id (fst (lerEventos s))) 0)]"
    if "status (fst ((case q of (amb, body) \<Rightarrow> criar_evento amb body) s)) = 200
        \<or> status (fst ((case q of (amb, body) \<Rightarrow> criar_evento amb body) s)) = 201"
    using that c unfolding q by auto
  show "map item_id (fst (lerEventos (snd ((case q of (amb, body) \<Rightarrow> criar_evento amb body) s))))
          = map item_id (fst (lerEventos s))"
    if "\<not> (status (fst ((case q of (amb, body) \<Rightarrow> criar_evento amb body) s)) = 200
        \<or> status (fst ((case q of (amb, body) \<Rightarrow> criar_evento amb body) s)) = 201)"
    using that c unfolding q by auto
qed

lemma seq_noticias:
  assumes "foldr max (map item_id (fst (lerNoticias s))) 0 + int (length qs) \<le> 2 ^ 53"
  shows "map item_id (fst (lerNoticias (snd (em_sequencia (\<lambda>(amb, body). criar_noticia amb body) qs s))))
     = map item_id (fst (lerNoticias s))
       @ map (\<lambda>k. foldr max (map item_id (fst (lerNoticias s))) 0 + 1 + int k)
           [0 ..< sucessos (fst (em_sequencia (\<lambda>(amb, body). criar_noticia amb body) qs s))]"
proof (rule seq_ids [where v = "\<lambda>s. map item_id (fst (lerNoticias s))", OF _ _ assms])
  fix q :: "ambiente \<times> (string \<rightharpoonup> json)" and s
  obtain amb body where q: "q = (amb, body)" by (cases q)
  note c = criar_noticia_cases [of amb body s]
  show "map item_id (fst (lerNoticias (snd ((case q of (amb, body) \<Rightarrow> criar_noticia amb body) s))))
          = map item_id (fst (lerNoticias s))
            @ [mais_um (foldr max (map item_id (fst (lerNoticias s))) 0)]"
    if "status (fst ((case q of (amb, body) \<Rightarrow> criar_noticia amb body) s)) = 200
        \<or> status (fst ((case q of (amb, body) \<Rightarrow> criar_noticia amb body) s)) = 201"
    using that c unfolding q by auto
  show "map item_id (fst (lerNoticias (snd ((case q of (amb, body) \<Rightarrow> criar_noticia amb body) s))))
          = map item_id (fst (lerNoticias s))"
    if "\<not> (status (fst ((case q of (amb, body) \<Rightarrow> criar_noticia amb body) s)) = 200
        \<or> status (fst ((case q of (amb, body) \<Rightarrow> criar_noticia amb body) s)) = 201)"
    using that c unfolding q by auto
qed

lemma seq_admins:
  assumes "foldr max (map admin_id (fst (lerAdmins amb' s))) 0 + int (length qs) \<le> 2 ^ 53"
  shows "map admin_id (fst (lerAdmins amb' (snd (em_sequencia (\<lambda>(amb, n, e, p, r). criar_admin amb n e p r) qs s))))
     = map admin_id (fst (lerAdmins amb' s))
       @ map (\<lambda>k. foldr max (map admin_id (fst (lerAdmins amb' s))) 0 + 1 + int k)
           [0 ..< sucessos (fst (em_sequencia (\<lambda>(amb, n, e, p, r). criar_admin amb n e p r) qs s))]"
proof (rule seq_ids [where v = "\<lambda>s. map admin_id (fst (lerAdmins amb' s))", OF _ _ assms])
  fix q :: "ambiente \<times> string option \<times> string option \<times> string option \<times> string option" and s
  obtain amb n e p r where q: "q = (amb, n, e, p, r)" by (cases q)
  note c = criar_admin_cases [of amb n e p r s amb'] ids_admins_amb [of amb' s amb]
  show "map admin_id (fst (lerAdmins amb' (snd ((case q of (amb, n, e, p, r) \<Rightarrow> criar_admin amb n e p r) s))))
          = map admin_id (fst (lerAdmins amb' s))
            @ [mais_um (foldr max (map admin_id (fst (lerAdmins amb' s))) 0)]"
    if "status (fst ((case q of (amb, n, e, p, r) \<Rightarrow> criar_admin amb n e p r) s)) = 200
        \<or> status (fst ((case q of (amb, n, e, p, r) \<Rightarrow> criar_admin amb n e p r) s)) = 201"
    using that c unfolding q by auto
  show "map admin_id (fst (lerAdmins amb' (snd ((case q of (amb, n, e, p, r) \<Rightarrow> criar_admin amb n e p r) s))))
          = map admin_id (fst (lerAdmins amb' s))"
    if "\<not> (status (fst ((case q of (amb, n, e, p, r) \<Rightarrow> criar_admin amb n e p r) s)) = 200
        \<or> status (fst ((case q of (amb, n, e, p, r) \<Rightarrow> criar_admin amb n e p r) s)) = 201)"
    using that c unfolding q by auto
qed

lemma seq_mensagens:
  assumes "foldr max (map msg_id (fst (lerMensagens s))) 0 + int (length qs) \<le> 2 ^ 53"
  shows "map msg_id (fst (lerMensagens (snd (em_sequencia (\<lambda>(amb, n, e, m). enviar_mensagem amb n e m) qs s))))
     = map msg_id (fst (lerMensagens s))
       @ map (\<lambda>k. foldr max (map msg_id (fst (lerMensagens s))) 0 + 1 + int k)
           [0 ..< sucessos (fst (em_sequencia (\<lambda>(amb, n, e, m). enviar_mensagem amb n e m) qs s))]"
proof (rule seq_ids [where v = "\<lambda>s. map msg_id (fst (lerMensagens s))", OF _ _ assms])
  fix q :: "ambiente \<times> string option \<times> string option \<times> string option" and s
  obtain amb n e m where q: "q = (amb, n, e, m)" by (cases q)
  note c = enviar_mensagem_cases [of amb n e m s]
  show "map msg_id (fst (lerMensagens (snd ((case q of (amb, n, e, m) \<Rightarrow> enviar_mensagem amb n e m) s))))
          = map msg_id (fst (lerMensagens s))
            @ [mais_um (foldr max (map msg_id (fst (lerMensagens s))) 0)]"
    if "status (fst ((case q of (amb, n, e, m) \<Rightarrow> enviar_mensagem amb n e m) s)) = 200
        \<or> status (fst ((case q of (amb, n, e, m) \<Rightarrow> enviar_mensagem amb n e m) s)) = 201"
    using that c unfolding q by auto
  show "map msg_id (fst (lerMensagens (snd ((case q of (amb, n, e, m) \<Rightarrow> enviar_mensagem amb n e m) s))))
          = map msg_id (fst (lerMensagens s))"
    if "\<not> (status (fst ((case q of (amb, n, e, m) \<Rightarrow> enviar_mensagem amb n e m) s)) = 200
        \<or> status (fst ((case q of (amb, n, e, m) \<Rightarrow> enviar_mensagem amb n e m) s)) = 201)"
    using that c unfolding q by auto
qed

lemma mensagem_id_reused:
  fixes amb amb' n e m n' e' m' s
  defines "r1 \<equiv> enviar_mensagem amb n e m s"
  defines "r2 \<equiv> excluir_mensagem (data (fst r1)) (snd r1)"
  defines "r3 \<equiv> enviar_mensagem amb' n' e' m' (snd r2)"
  assumes seguro: "\<forall>x \<in> set (map msg_id (fst (lerMensagens s))). x < 2 ^ 53"
    and ok: "status (fst r1) = 200" "status (fst r3) = 200"
  shows "status (fst r2) = 200 \<and> data (fst r3) = data (fst r1)"
proof -
  define old where "old = fst (lerMensagens s)"
  define mx where "mx = foldr max (map msg_id old) 0"
  from seguro have "mx < 2 ^ 53" unfolding mx_def old_def by (rule foldr_max_seguro) simp
  then have mu: "mais_um mx = mx + 1" by (rule mais_um_seguro)
  from enviar_mensagem_cases [of amb n e m s] ok(1) obtain nova where
    d1: "data (fst r1) = Some (msg_id nova)" and
    id1: "msg_id nova = mx + 1" and
    c1: "mensagens_json (snd r1) = Content (old @ [nova])"
    unfolding r1_def old_def mx_def mu [unfolded mx_def old_def] by auto
  have fresh: "\<forall>x \<in> set old. \<not> Some (msg_id x) = Some (msg_id nova)"
  proof
    fix x assume "x \<in> set old"
    then have "msg_id x \<le> mx" unfolding mx_def by (intro foldr_max_ge) simp
    with id1 show "\<not> Some (msg_id x) = Some (msg_id nova)" by simp
  qed
  have fi: "findIndex (\<lambda>x. Some (msg_id x) = Some (msg_id nova)) (old @ [nova]) = Some (length old)"
    by (rule findIndex_snoc [OF fresh]) simp
  have w: "MENSAGENS_FILE \<notin> unwritable (snd r1)"
    using ok(1) unfolding r1_def
    by (auto simp: enviar_mensagem_def split_beta Let_def salvar_eq lerMensagens_def
        split: if_splits option.splits)
  have l1: "lerMensagens (snd r1) = (old @ [nova], snd r1)"
    using c1 by (simp add: lerMensagens_def readJson_def)
  have r2: "status (fst r2) = 200 \<and> mensagens_json (snd r2) = Content old"
    unfolding r2_def d1 using w fi
    by (simp add: excluir_mensagem_def l1 Let_def salvar_eq splice1_def)
  then have "fst (lerMensagens (snd r2)) = old"
    by (simp add: lerMensagens_def readJson_def)
  with enviar_mensagem_cases [of amb' n' e' m' "snd r2"] ok(2)
  have "data (fst r3) = Some (mais_um mx)"
    unfolding r3_def mx_def by auto
  with r2 d1 id1 mu show ?thesis by simp
qed

lemma save_converted_noticias:
  assumes "NOTICIAS_FILE \<in> unwritable s"
  shows "status (fst (criar_noticia amb body s))
           = storage_failure (status (fst (criar_noticia amb body (gravavel s))))"
    and "status (fst (atualizar_noticia amb pid upd s))
           = storage_failure (status (fst (atualizar_noticia amb pid upd (gravavel s))))"
    and "status (fst (excluir_noticia amb pid s))
           = storage_failure (status (fst (excluir_noticia amb pid (gravavel s))))"
  using assms
  by (simp_all add: criar_noticia_def atualizar_noticia_def excluir_noticia_def split_beta Let_def
      ler_unwritable salvar_unwritable ler_gravavel salvar_gravavel storage_failure_def
      split: option.splits)

lemma save_converted_admins:
  assumes "ADMINS_FILE \<in> unwritable s"
  shows "status (fst (criar_admin amb p_nome p_email p_senha p_role s))
           = storage_failure (status (fst (criar_admin amb p_nome p_email p_senha p_role (gravavel s))))"
    and "status (fst (atualizar_admin amb pid p_nome p_email p_role p_ativo s))
           = storage_failure
               (status (fst (atualizar_admin amb pid p_nome p_email p_role p_ativo (gravavel s))))"
    and "status (fst (excluir_admin amb pid s))
           = storage_failure (status (fst (excluir_admin amb pid (gravavel s))))"
    and "status (fst (alterar_senha_admin amb pid novaSenha s))
           = storage_failure (status (fst (alterar_senha_admin amb pid novaSenha (gravavel s))))"
    and "status (fst (change_password amb u currentPassword newPassword s))
           = storage_failure
               (status (fst (change_password amb u currentPassword newPassword (gravavel s))))"
  using assms
  by (auto simp: criar_admin_def atualizar_admin_def excluir_admin_def alterar_senha_admin_def
      change_password_def split_beta Let_def ler_unwritable salvar_unwritable ler_gravavel
      salvar_gravavel storage_failure_def split: option.splits)

lemma save_converted_contatos:
  "CONTATOS_FILE \<in> unwritable s \<Longrightarrow>
     status (fst (atualizar_contatos amb body s))
       = storage_failure (status (fst (atualizar_contatos amb body (gravavel s))))"
  "MENSAGENS_FILE \<in> unwritable s \<Longrightarrow>
     status (fst (enviar_mensagem amb p_nome p_email p_mensagem s))
       = storage_failure (status (fst (enviar_mensagem amb p_nome p_email p_mensagem (gravavel s))))"
  "MENSAGENS_FILE \<in> unwritable s \<Longrightarrow>
     status (fst (atualizar_mensagem amb pid p_lida p_respondida s))
       = storage_failure (status (fst (atualizar_mensagem amb pid p_lida p_respondida (gravavel s))))"
  "MENSAGENS_FILE \<in> unwritable s \<Longrightarrow>
     status (fst (excluir_mensagem pid s))
       = storage_failure (status (fst (excluir_mensagem pid (gravavel s))))"
  by (simp_all add: atualizar_contatos_def enviar_mensagem_def atualizar_mensagem_def
      excluir_mensagem_def split_beta Let_def ler_unwritable salvar_unwritable ler_gravavel
      salvar_gravavel storage_failure_def split: option.splits)

section \<open>The last super_admin and the password reset\<close>

text \<open>
  What the two guards do reject, on the collection a handler loads: a \<open>PUT\<close> with
  \<open>ativo = false\<close> aimed at a super_admin when no other entry is an active super_admin,
  and a \<open>DELETE\<close> aimed at a super_admin when no other entry has the role super_admin.
  The state stays as the load left it.
\<close>

lemma super_admin_guards:
  fixes amb pid s
  defines "admins \<equiv> fst (lerAdmins amb s)"
  assumes "findIndex (\<lambda>a. Some (admin_id a) = pid) admins = Some i"
    and "role (admins ! i) = ''super_admin''"
  shows "filter (\<lambda>a. role a = ''super_admin'' \<and> ativo a \<and> Some (admin_id a) \<noteq> pid) admins = []
           \<Longrightarrow> atualizar_admin amb pid p_nome p_email p_role (Some False) s
                 = (Response 400 None, snd (lerAdmins amb s))"
    and "filter (\<lambda>a. role a = ''super_admin'' \<and> Some (admin_id a) \<noteq> pid) admins = []
           \<Longrightarrow> excluir_admin amb pid s = (Response 400 None, snd (lerAdmins amb s))"
  using assms(2,3) unfolding admins_def
  by (simp_all add: atualizar_admin_def excluir_admin_def split_beta Let_def)

text \<open>
  C1. The invariant that some administrator is an active super_admin is not preserved
  by every operation. Two evaluations. First, with administrator 1 an active super_admin
  and administrator 3 an inactive super_admin, \<open>DELETE /api/admins/1\<close> is answered 200
  and leaves only administrator 3: the deletion guard counts the other entries of role
  super_admin without looking at \<open>ativo\<close>. Second, with administrator 1 the only
  super_admin, \<open>PUT /api/admins/1\<close> with \<open>role = admin\<close> is answered 200 and leaves no
  super_admin: the update guard looks only at requests with \<open>ativo = false\<close>. In both
  cases the invariant holds before and fails after.
\<close>

theorem last_super_admin_removed:
  "has_active_super_admin [adm1, adm3]
   \<and> excluir_admin amb0 (Some 1) fs4
       = (Response 200 None, fs4\<lparr>admins_json := Content [adm3], written := [ADMINS_FILE]\<rparr>)
   \<and> \<not> has_active_super_admin [adm3]
   \<and> has_active_super_admin [adm1, adm2]
   \<and> atualizar_admin amb0 (Some 1) None None (Some ''admin'') None fs3
       = (Response 200 None,
          fs3\<lparr>admins_json :=
                 Content [adm1\<lparr>role := ''admin'', atualizadoEm := ''2025-08-28T21:30:45.124Z''\<rparr>,
                          adm2],
              written := [ADMINS_FILE]\<rparr>)
   \<and> \<not> has_active_super_admin
          [adm1\<lparr>role := ''admin'', atualizadoEm := ''2025-08-28T21:30:45.124Z''\<rparr>, adm2]"
  by (simp add: has_active_super_admin_def excluir_admin_def atualizar_admin_def aplicar_admin_def
      splice1_def lerAdmins_def ler_com_padrao_def salvarAdmins_def salvar_def write_admins_def
      writeFile_def Let_def truthy_str_def readJson_def fs3_def fs4_def fs_vazio_def adm1_def
      adm2_def adm3_def amb0_simps)

text \<open>
  C10. Password reset by an administrator. For a request whose token verifies to a user
  of role admin or super_admin, whoever that user is and whichever administrator the id
  names, the status of \<open>PUT /api/admins/:id/password\<close> is decided by exactly these tests,
  in this order: 400 when the new password is absent, empty or shorter than 8; 404 when
  no administrator has the id; 500 when the file cannot be written; 200 otherwise. The
  current password of the target is never consulted. On 200 the stored collection is
  the loaded one with, at the target's index, \<open>senha\<close> replaced by the bcrypt hash of the
  new password and \<open>atualizadoEm\<close> stamped.
\<close>

theorem admin_password_reset:
  fixes amb pid novaSenha s u
  defines "admins \<equiv> fst (lerAdmins amb s)"
  defines "r \<equiv> put_admins_id_password (TokenValido u) amb pid novaSenha s"
  assumes "usuario_role u = ''admin'' \<or> usuario_role u = ''super_admin''"
  shows "status (fst r) =
           (if \<not> truthy_str novaSenha \<or> length (the novaSenha) < 8 then 400
            else if findIndex (\<lambda>a. Some (admin_id a) = pid) admins = None then 404
            else if ADMINS_FILE \<in> unwritable s then 500 else 200)
       \<and> (status (fst r) = 200 \<longrightarrow>
            (\<exists>i p. novaSenha = Some p \<and> findIndex (\<lambda>a. Some (admin_id a) = pid) admins = Some i
               \<and> admins_json (snd r) =
                   Content (admins[i := (admins ! i)\<lparr>senha := bcrypt_hash amb p,
                                                      atualizadoEm := agora amb 2\<rparr>])))"
  using assms(3) unfolding admins_def r_def
  by (auto simp: put_admins_id_password_def rota_admin_def authenticateToken_def requireAdmin_def
      alterar_senha_admin_def lerAdmins_def ler_com_padrao_def salvarAdmins_def salvar_def
      write_admins_def writeFile_def Let_def truthy_str_def readJson_def
      split: option.splits arquivo.splits prod.splits if_splits)

theorem admin_password_reset_witness:
  "usuario_role ana = ''admin''
   \<and> usuario_id ana = 2
   \<and> role adm1 = ''super_admin''
   \<and> status (fst (put_admins_id_password (TokenValido ana) amb0 (Some 1) (Some ''12345678'') fs3))
       = 200
   \<and> admins_json (snd (put_admins_id_password (TokenValido ana) amb0 (Some 1) (Some ''12345678'') fs3))
       = Content [adm1\<lparr>senha := ''$2a$10$12345678'', atualizadoEm := ''2025-08-28T21:30:45.124Z''\<rparr>,
                  adm2]"
proof -
  have h: "usuario_role ana = ''admin''" "usuario_id ana = 2" "role adm1 = ''super_admin''"
    by (simp_all add: ana_def adm1_def)
  have a: "fst (lerAdmins amb0 fs3) = [adm1, adm2]"
    by (simp add: lerAdmins_def ler_com_padrao_def readJson_def fs3_def fs_vazio_def)
  have i: "findIndex (\<lambda>a. Some (admin_id a) = Some 1) [adm1, adm2] = Some 0"
    by (simp add: adm1_def)
  have w: "ADMINS_FILE \<notin> unwritable fs3" by (simp add: fs3_def fs_vazio_def)
  have e: "bcrypt_hash amb0 ''12345678'' = ''$2a$10$12345678''"
    "agora amb0 2 = ''2025-08-28T21:30:45.124Z''"
    by (simp_all add: amb0_simps)
  from admin_password_reset [of ana amb0 "Some 1" "Some ''12345678''" fs3] h a i w e
  show ?thesis by (simp add: truthy_str_def)
qed

section \<open>Backup, restore and listing\<close>

text \<open>
  C2. Round trip. In a state whose events and news files hold collections, with the two
  backup files and the two live files writable, \<open>criar_backup\<close> answers 200 with the
  file name \<open>backup-<encoded instant>.json\<close>, and \<open>restaurar_backup\<close> of that name,
  run on the state the backup left, answers 200 and leaves the events and the news file
  holding the collections they held when the backup was taken. The second environment
  is the clock of the restore request.
\<close>

theorem backup_restore_roundtrip:
  fixes amb1 amb2 s
  defines "b \<equiv> criar_backup amb1 s"
  defines "fname \<equiv> ''backup-'' @ encode_timestamp (agora amb1 0) @ ''.json''"
  defines "r \<equiv> restaurar_backup amb2 (Some fname) (snd b)"
  assumes "eventos_json s = Content evs" and "noticias_json s = Content nts"
    and "BACKUP fname \<notin> unwritable s"
    and "BACKUP (''backup-before-restore-'' @ encode_timestamp (agora amb2 0) @ ''.json'')
           \<notin> unwritable s"
    and "EVENTOS_FILE \<notin> unwritable s" and "NOTICIAS_FILE \<notin> unwritable s"
  shows "fst b = Response 200 (Some (fname, agora amb1 1))
       \<and> status (fst r) = 200
       \<and> eventos_json (snd r) = Content evs
       \<and> noticias_json (snd r) = Content nts"
proof -
  define bk where
    "bk = \<lparr>timestamp = agora amb1 1, eventos = Some evs, noticias = Some nts\<rparr>"
  define s1 where
    "s1 = s\<lparr>backups := (backups s)(fname := Content bk), written := written s @ [BACKUP fname]\<rparr>"
  have b: "b = (Response 200 (Some (fname, agora amb1 1)), s1)"
    using assms(4-6) unfolding b_def s1_def bk_def fname_def
    by (simp add: criar_backup_def Let_def readJson_def write_backup_def writeFile_def)
  have nc: "no_caminho s1 fname = Content (Some evs, Some nts)"
    unfolding fname_def no_caminho_backup
    by (simp add: s1_def bk_def fname_def)
  have ne: "truthy_str (Some fname)" by (simp add: truthy_str_def fname_def)
  have f: "eventos_json s1 = Content evs" "noticias_json s1 = Content nts"
    "unwritable s1 = unwritable s"
    using assms(4,5) by (simp_all add: s1_def)
  have "status (fst r) = 200 \<and> eventos_json (snd r) = Content evs
          \<and> noticias_json (snd r) = Content nts"
    unfolding r_def b using assms(7-) ne nc f
    by (simp add: restaurar_backup_def Let_def readJson_def write_backup_def
        write_eventos_def write_noticias_def writeFile_def)
  with b show ?thesis by simp
qed

theorem backup_restore_roundtrip_witness:
  "eventos_json fs1 = Content [evento1] \<and> noticias_json fs1 = Content []
   \<and> unwritable fs1 = {}
   \<and> fst (criar_backup amb0 fs1)
       = Response 200 (Some (''backup-2025-08-28T21-30-45-123Z.json'', ''2025-08-28T21:30:45.124Z''))
   \<and> status (fst (restaurar_backup amb0 (Some ''backup-2025-08-28T21-30-45-123Z.json'')
                    (snd (criar_backup amb0 fs1)))) = 200
   \<and> eventos_json (snd (restaurar_backup amb0 (Some ''backup-2025-08-28T21-30-45-123Z.json'')
                          (snd (criar_backup amb0 fs1)))) = Content [evento1]
   \<and> noticias_json (snd (restaurar_backup amb0 (Some ''backup-2025-08-28T21-30-45-123Z.json'')
                           (snd (criar_backup amb0 fs1)))) = Content []"
proof -
  have h: "eventos_json fs1 = Content [evento1]" "noticias_json fs1 = Content []"
    "unwritable fs1 = {}"
    by (simp_all add: fs1_def fs_vazio_def)
  have e: "encode_timestamp (agora amb0 0) = ''2025-08-28T21-30-45-123Z''"
    "agora amb0 1 = ''2025-08-28T21:30:45.124Z''"
    by (simp_all add: amb0_simps encode_timestamp_def)
  from backup_restore_roundtrip [of fs1 "[evento1]" "[]" amb0 amb0] h e
  show ?thesis by simp
qed

text \<open>
  C3. The safety snapshot comes first. Whatever the outcome of a restore, the files it
  wrote are, in order, a prefix of: the snapshot \<open>backup-before-restore-<encoded
  instant>.json\<close>, the events file, the news file; so no live file is written unless the
  snapshot was written before it. When the restore answers 200 all three were written
  in that order, and the snapshot holds the events and news collections read from the
  live files before the restore.
\<close>

theorem restore_snapshot_first:
  fixes amb filename s
  defines "r \<equiv> restaurar_backup amb filename s"
  defines "snap \<equiv> ''backup-before-restore-'' @ encode_timestamp (agora amb 0) @ ''.json''"
  shows "(written (snd r) = written s
          \<or> written (snd r) = written s @ [BACKUP snap]
          \<or> written (snd r) = written s @ [BACKUP snap, EVENTOS_FILE]
          \<or> written (snd r) = written s @ [BACKUP snap, EVENTOS_FILE, NOTICIAS_FILE])
       \<and> (status (fst r) = 200 \<longrightarrow>
            written (snd r) = written s @ [BACKUP snap, EVENTOS_FILE, NOTICIAS_FILE]
            \<and> (\<exists>evs nts. eventos_json s = Content evs \<and> noticias_json s = Content nts
                 \<and> backups (snd r) snap =
                     Content \<lparr>timestamp = agora amb 1, eventos = Some evs, noticias = Some nts\<rparr>))"
  unfolding r_def snap_def
  by (auto simp: restaurar_backup_def Let_def readJson_def write_backup_def write_eventos_def
      write_noticias_def writeFile_def split: arquivo.splits option.splits if_splits)

theorem restore_snapshot_first_witness:
  "status (fst (restaurar_backup amb0 (Some ''backup-a.json'') fs2)) = 200
   \<and> written (snd (restaurar_backup amb0 (Some ''backup-a.json'') fs2))
       = [BACKUP ''backup-before-restore-2025-08-28T21-30-45-123Z.json'',
          EVENTOS_FILE, NOTICIAS_FILE]
   \<and> backups (snd (restaurar_backup amb0 (Some ''backup-a.json'') fs2))
        ''backup-before-restore-2025-08-28T21-30-45-123Z.json''
       = Content \<lparr>timestamp = ''2025-08-28T21:30:45.124Z'', eventos = Some [evento1],
                  noticias = Some []\<rparr>"
proof -
  have h: "status (fst (restaurar_backup amb0 (Some ''backup-a.json'') fs2)) = 200"
    by (simp add: restaurar_backup_def no_caminho_simples fs2_def fs1_def fs_vazio_def
        truthy_str_def Let_def readJson_def write_backup_def write_eventos_def
        write_noticias_def writeFile_def)
  have e: "encode_timestamp (agora amb0 0) = ''2025-08-28T21-30-45-123Z''"
    "agora amb0 1 = ''2025-08-28T21:30:45.124Z''"
    by (simp_all add: amb0_simps encode_timestamp_def)
  have f: "written fs2 = []" "eventos_json fs2 = Content [evento1]"
    "noticias_json fs2 = Content []"
    by (simp_all add: fs2_def fs1_def fs_vazio_def)
  from restore_snapshot_first [of amb0 "Some ''backup-a.json''" fs2] h e f
  show ?thesis by simp
qed

text \<open>
  C8, as the code has it. A restore request without a file name, or with the empty
  name, is answered 400. For a request that names a file, the name is joined to the
  backup directory without being sanitised, and when nothing exists at the resulting
  path the answer is 404 and the state is the one before: neither live file is written
  and no backup file is created. In particular this is the answer for every name that
  has no separator, is neither \<open>.\<close> nor \<open>..\<close>, and is not an entry of the backup
  directory.
\<close>

theorem restore_missing_backup:
  "(\<not> truthy_str filename \<longrightarrow> restaurar_backup amb filename s = (Response 400 None, s))
   \<and> (truthy_str filename \<and> no_caminho s (the filename) = Missing \<longrightarrow>
        restaurar_backup amb filename s = (Response 404 None, s))
   \<and> (name \<noteq> [] \<and> CHR ''/'' \<notin> set name \<and> name \<noteq> ''.'' \<and> name \<noteq> ''..''
        \<and> backups s name = Missing \<longrightarrow>
        no_caminho s name = Missing
        \<and> restaurar_backup amb (Some name) s = (Response 404 None, s))"
proof (intro conjI impI)
  assume "name \<noteq> [] \<and> CHR ''/'' \<notin> set name \<and> name \<noteq> ''.'' \<and> name \<noteq> ''..''
        \<and> backups s name = Missing"
  then have n: "name \<noteq> []" "no_caminho s name = Missing"
    by (simp_all add: no_caminho_simples)
  from n(2) show "no_caminho s name = Missing" .
  from n show "restaurar_backup amb (Some name) s = (Response 404 None, s)"
    by (simp add: restaurar_backup_def truthy_str_def)
qed (simp_all add: restaurar_backup_def)

text \<open>
  The claim as stated fails in three ways. No entry of the backup directory of \<open>fs2\<close>
  is named \<open>../data/eventos.json\<close>, yet the name leads to the live events file, which
  exists, and the answer is 400. No entry has the empty name, and the answer is 400.
  And in \<open>fs9\<close> no entry is named \<open>../uploads/x.json\<close>, yet the name leads to an existing
  document: the answer is 200 and the live events file, which held one event, holds
  the empty collection of that document afterwards.
\<close>

theorem restore_missing_backup_counterexample:
  "backups fs2 ''../data/eventos.json'' = Missing
   \<and> restaurar_backup amb0 (Some ''../data/eventos.json'') fs2 = (Response 400 None, fs2)
   \<and> backups fs2 [] = Missing
   \<and> restaurar_backup amb0 (Some []) fs2 = (Response 400 None, fs2)
   \<and> backups fs9 ''../uploads/x.json'' = Missing
   \<and> status (fst (restaurar_backup amb0 (Some ''../uploads/x.json'') fs9)) = 200
   \<and> eventos_json fs9 = Content [evento1]
   \<and> eventos_json (snd (restaurar_backup amb0 (Some ''../uploads/x.json'') fs9)) = Content []"
  by (simp add: restaurar_backup_def no_caminho_def backupPath_def sem_propriedades_def
      truthy_str_def Let_def readJson_def write_backup_def write_eventos_def write_noticias_def
      writeFile_def fs9_def fs2_def fs1_def fs_vazio_def)

text \<open>
  The statement at a request without a name, and at the name \<open>backup-b.json\<close>, which is
  not an entry of the backup directory of \<open>fs2\<close>.
\<close>

theorem restore_missing_backup_witness:
  "\<not> truthy_str None
   \<and> restaurar_backup amb0 None fs2 = (Response 400 None, fs2)
   \<and> truthy_str (Some ''backup-b.json'') \<and> backups fs2 ''backup-b.json'' = Missing
   \<and> no_caminho fs2 ''backup-b.json'' = Missing
   \<and> restaurar_backup amb0 (Some ''backup-b.json'') fs2 = (Response 404 None, fs2)"
proof -
  have h: "\<not> truthy_str None" "truthy_str (Some ''backup-b.json'')"
    "backups fs2 ''backup-b.json'' = Missing"
    by (simp_all add: truthy_str_def fs2_def)
  from restore_missing_backup [where filename = None and amb = amb0 and s = fs2
         and name = "''backup-b.json''"] h
  show ?thesis by simp
qed

text \<open>
  C7. Decoding a backup file name inverts the encoding. For every instant as
  \<open>toISOString\<close> prints it, the file name \<open>backup-<instant with ':' and '.' replaced by
  '-'>.json\<close> passes the listing's filter, and the listing's parsing step rebuilds from
  it exactly the instant's ISO-8601 text, which is what it hands to \<open>new Date\<close>. This is
  the name a successful \<open>criar_backup\<close> returns when its first clock reading is that
  instant.
\<close>

theorem timestamp_decode_encode:
  assumes "is_iso_instant t"
  shows "parse_backup_timestamp (''backup-'' @ encode_timestamp t @ ''.json'') = t
       \<and> is_backup_file (''backup-'' @ encode_timestamp t @ ''.json'')
       \<and> (agora amb 0 = t \<and> status (fst (criar_backup amb s)) = 200 \<longrightarrow>
            (\<exists>f ts. data (fst (criar_backup amb s)) = Some (f, ts)
               \<and> is_backup_file f \<and> parse_backup_timestamp f = t))"
proof (intro conjI impI)
  from iso_shape [OF assms]
  show p: "parse_backup_timestamp (''backup-'' @ encode_timestamp t @ ''.json'') = t"
    by (elim exE conjE) (rule decode_encode_shape)
  show b: "is_backup_file (''backup-'' @ encode_timestamp t @ ''.json'')"
    by (simp add: is_backup_file_def)
  assume "agora amb 0 = t \<and> status (fst (criar_backup amb s)) = 200"
  then have "data (fst (criar_backup amb s))
               = Some (''backup-'' @ encode_timestamp t @ ''.json'', agora amb 1)"
    by (auto simp: criar_backup_def Let_def split: option.splits)
  with p b show "\<exists>f ts. data (fst (criar_backup amb s)) = Some (f, ts)
               \<and> is_backup_file f \<and> parse_backup_timestamp f = t"
    by blast
qed

theorem timestamp_decode_encode_witness:
  "is_iso_instant ''2025-08-28T21:30:45.123Z''
   \<and> encode_timestamp ''2025-08-28T21:30:45.123Z'' = ''2025-08-28T21-30-45-123Z''
   \<and> parse_backup_timestamp ''backup-2025-08-28T21-30-45-123Z.json'' = ''2025-08-28T21:30:45.123Z''
   \<and> agora amb0 0 = ''2025-08-28T21:30:45.123Z''
   \<and> status (fst (criar_backup amb0 fs1)) = 200
   \<and> (\<exists>f ts. data (fst (criar_backup amb0 fs1)) = Some (f, ts)
         \<and> is_backup_file f \<and> parse_backup_timestamp f = ''2025-08-28T21:30:45.123Z'')"
proof -
  have h: "is_iso_instant ''2025-08-28T21:30:45.123Z''"
    by (simp add: is_iso_instant_def digito_def)
  have e: "encode_timestamp ''2025-08-28T21:30:45.123Z'' = ''2025-08-28T21-30-45-123Z''"
    by (simp add: encode_timestamp_def)
  have a: "agora amb0 0 = ''2025-08-28T21:30:45.123Z''" by (simp add: amb0_simps)
  have c: "status (fst (criar_backup amb0 fs1)) = 200"
    by (simp add: criar_backup_def Let_def readJson_def write_backup_def writeFile_def fs1_def
        fs_vazio_def)
  from timestamp_decode_encode [OF h, where amb = amb0 and s = fs1] h e a c
  show ?thesis by simp
qed

section \<open>Loading, saving, identifiers and updates\<close>

text \<open>
  C4, as the code has it. When the collection's file is missing or unparseable: the
  loads of events, news, administrators and contact data return the default value and
  write it to the file when that write succeeds, and when it fails they still return the
  default and leave the state as it was (the write is best-effort); the load of messages
  returns the empty list and writes nothing; \<open>readJsonFile\<close> returns the default and
  writes it to the file when the write succeeds.
\<close>

theorem load_default:
  "(readJson (eventos_json s) = None \<longrightarrow>
      fst (lerEventos s) = []
      \<and> snd (lerEventos s)
          = (if EVENTOS_FILE \<in> unwritable s then s
             else s\<lparr>eventos_json := Content [], written := written s @ [EVENTOS_FILE]\<rparr>))
   \<and> (readJson (noticias_json s) = None \<longrightarrow>
      fst (lerNoticias s) = []
      \<and> snd (lerNoticias s)
          = (if NOTICIAS_FILE \<in> unwritable s then s
             else s\<lparr>noticias_json := Content [], written := written s @ [NOTICIAS_FILE]\<rparr>))
   \<and> (readJson (admins_json s) = None \<longrightarrow>
      fst (lerAdmins amb s) = adminDefault amb
      \<and> snd (lerAdmins amb s)
          = (if ADMINS_FILE \<in> unwritable s then s
             else s\<lparr>admins_json := Content (adminDefault amb),
                     written := written s @ [ADMINS_FILE]\<rparr>))
   \<and> (readJson (contatos_json s) = None \<longrightarrow>
      fst (lerContatos amb s) = contatosDefault amb
      \<and> snd (lerContatos amb s)
          = (if CONTATOS_FILE \<in> unwritable s then s
             else s\<lparr>contatos_json := Content (contatosDefault amb),
                     written := written s @ [CONTATOS_FILE]\<rparr>))
   \<and> (readJson (mensagens_json s) = None \<longrightarrow> lerMensagens s = ([], s))
   \<and> (readJson (eventos_json s) = None \<and> EVENTOS_FILE \<notin> unwritable s \<longrightarrow>
      readJsonFile (eventos_json s) write_eventos [] s
        = Some ([], s\<lparr>eventos_json := Content [], written := written s @ [EVENTOS_FILE]\<rparr>))"
  by (simp add: lerEventos_def lerNoticias_def lerAdmins_def lerContatos_def lerMensagens_def
      readJsonFile_def ler_com_padrao_def write_eventos_def write_noticias_def write_admins_def
      write_contatos_def writeFile_def)

text \<open>
  The claim as stated fails for messages: with the messages file missing and writable,
  the load returns the empty list and the file is still missing afterwards.
\<close>

theorem load_default_counterexample:
  "mensagens_json fs_vazio = Missing
   \<and> MENSAGENS_FILE \<notin> unwritable fs_vazio
   \<and> lerMensagens fs_vazio = ([], fs_vazio)
   \<and> mensagens_json (snd (lerMensagens fs_vazio)) = Missing"
  by (simp add: lerMensagens_def readJson_def fs_vazio_def)

text \<open>
  The statement at the empty state, where every file is missing, and at a state whose
  events file is unparseable and cannot be written.
\<close>

theorem load_default_witness:
  "readJson (eventos_json fs_vazio) = None \<and> readJson (noticias_json fs_vazio) = None
   \<and> readJson (admins_json fs_vazio) = None \<and> readJson (contatos_json fs_vazio) = None
   \<and> readJson (mensagens_json fs_vazio) = None \<and> EVENTOS_FILE \<notin> unwritable fs_vazio
   \<and> lerEventos fs_vazio
       = ([], fs_vazio\<lparr>eventos_json := Content [], written := [EVENTOS_FILE]\<rparr>)
   \<and> lerNoticias fs_vazio
       = ([], fs_vazio\<lparr>noticias_json := Content [], written := [NOTICIAS_FILE]\<rparr>)
   \<and> lerAdmins amb0 fs_vazio
       = (adminDefault amb0,
          fs_vazio\<lparr>admins_json := Content (adminDefault amb0), written := [ADMINS_FILE]\<rparr>)
   \<and> lerContatos amb0 fs_vazio
       = (contatosDefault amb0,
          fs_vazio\<lparr>contatos_json := Content (contatosDefault amb0), written := [CONTATOS_FILE]\<rparr>)
   \<and> lerMensagens fs_vazio = ([], fs_vazio)
   \<and> readJsonFile (eventos_json fs_vazio) write_eventos [] fs_vazio
       = Some ([], fs_vazio\<lparr>eventos_json := Content [], written := [EVENTOS_FILE]\<rparr>)
   \<and> EVENTOS_FILE \<in> unwritable fs6 \<and> readJson (eventos_json (fs6\<lparr>eventos_json := Corrupt\<rparr>)) = None
   \<and> lerEventos (fs6\<lparr>eventos_json := Corrupt\<rparr>) = ([], fs6\<lparr>eventos_json := Corrupt\<rparr>)"
proof -
  have h: "readJson (eventos_json fs_vazio) = None" "readJson (noticias_json fs_vazio) = None"
    "readJson (admins_json fs_vazio) = None" "readJson (contatos_json fs_vazio) = None"
    "readJson (mensagens_json fs_vazio) = None" "unwritable fs_vazio = {}"
    "written fs_vazio = []"
    by (simp_all add: readJson_def fs_vazio_def)
  have k: "EVENTOS_FILE \<in> unwritable (fs6\<lparr>eventos_json := Corrupt\<rparr>)"
    "EVENTOS_FILE \<in> unwritable fs6"
    "readJson (eventos_json (fs6\<lparr>eventos_json := Corrupt\<rparr>)) = None"
    by (simp_all add: fs6_def readJson_def)
  from load_default [where s = fs_vazio and amb = amb0]
       load_default [where s = "fs6\<lparr>eventos_json := Corrupt\<rparr>"] h k
  show ?thesis by (simp add: prod_eq_iff)
qed

text \<open>
  C5, as the code has it. For every create, update, delete and password-change handler
  of events, news, administrators, contact data and messages: in a state where the
  collection's file cannot be written, so that the handler's save returns false, the
  status is the one the same request gets in the same state made writable, except that
  200 and 201 become 500, and the state is left unchanged. So none of them reports
  success after a failed save. The login handler drops the result of its last-login
  save: with credentials that verify it answers 200 in every state.
\<close>

theorem save_result_checked:
  "(EVENTOS_FILE \<in> unwritable s \<longrightarrow>
       status (fst (criar_evento amb body s))
         = storage_failure (status (fst (criar_evento amb body (gravavel s))))
     \<and> snd (criar_evento amb body s) = s
     \<and> status (fst (atualizar_evento amb pid upd s))
         = storage_failure (status (fst (atualizar_evento amb pid upd (gravavel s))))
     \<and> snd (atualizar_evento amb pid upd s) = s
     \<and> status (fst (excluir_evento amb pid s))
         = storage_failure (status (fst (excluir_evento amb pid (gravavel s))))
     \<and> snd (excluir_evento amb pid s) = s)
   \<and> (NOTICIAS_FILE \<in> unwritable s \<longrightarrow>
       status (fst (criar_noticia amb body s))
         = storage_failure (status (fst (criar_noticia amb body (gravavel s))))
     \<and> snd (criar_noticia amb body s) = s
     \<and> status (fst (atualizar_noticia amb pid upd s))
         = storage_failure (status (fst (atualizar_noticia amb pid upd (gravavel s))))
     \<and> snd (atualizar_noticia amb pid upd s) = s
     \<and> status (fst (excluir_noticia amb pid s))
         = storage_failure (status (fst (excluir_noticia amb pid (gravavel s))))
     \<and> snd (excluir_noticia amb pid s) = s)
   \<and> (ADMINS_FILE \<in> unwritable s \<longrightarrow>
       status (fst (criar_admin amb p_nome p_email p_senha p_role s))
         = storage_failure (status (fst (criar_admin amb p_nome p_email p_senha p_role (gravavel s))))
     \<and> snd (criar_admin amb p_nome p_email p_senha p_role s) = s
     \<and> status (fst (atualizar_admin amb pid p_nome p_email p_role p_ativo s))
         = storage_failure
             (status (fst (atualizar_admin amb pid p_nome p_email p_role p_ativo (gravavel s))))
     \<and> snd (atualizar_admin amb pid p_nome p_email p_role p_ativo s) = s
     \<and> status (fst (excluir_admin amb pid s))
         = storage_failure (status (fst (excluir_admin amb pid (gravavel s))))
     \<and> snd (excluir_admin amb pid s) = s
     \<and> status (fst (alterar_senha_admin amb pid novaSenha s))
         = storage_failure (status (fst (alterar_senha_admin amb pid novaSenha (gravavel s))))
     \<and> snd (alterar_senha_admin amb pid novaSenha s) = s
     \<and> status (fst (change_password amb u currentPassword newPassword s))
         = storage_failure
             (status (fst (change_password amb u currentPassword newPassword (gravavel s))))
     \<and> snd (change_password amb u currentPassword newPassword s) = s)
   \<and> (CONTATOS_FILE \<in> unwritable s \<longrightarrow>
       status (fst (atualizar_contatos amb body s))
         = storage_failure (status (fst (atualizar_contatos amb body (gravavel s))))
     \<and> snd (atualizar_contatos amb body s) = s)
   \<and> (MENSAGENS_FILE \<in> unwritable s \<longrightarrow>
       status (fst (enviar_mensagem amb p_nome p_email p_mensagem s))
         = storage_failure (status (fst (enviar_mensagem amb p_nome p_email p_mensagem (gravavel s))))
     \<and> snd (enviar_mensagem amb p_nome p_email p_mensagem s) = s
     \<and> status (fst (atualizar_mensagem amb pid p_lida p_respondida s))
         = storage_failure
             (status (fst (atualizar_mensagem amb pid p_lida p_respondida (gravavel s))))
     \<and> snd (atualizar_mensagem amb pid p_lida p_respondida s) = s
     \<and> status (fst (excluir_mensagem pid s))
         = storage_failure (status (fst (excluir_mensagem pid (gravavel s))))
     \<and> snd (excluir_mensagem pid s) = s)
   \<and> (truthy_str l_email \<and> truthy_str l_password
        \<and> find (\<lambda>a. email a = the l_email \<and> ativo a) (fst (lerAdmins amb s)) = Some adm
        \<and> bcrypt_compare amb (the l_password) (senha adm)
       \<longrightarrow> status (fst (login amb l_email l_password s)) = 200)"
proof (intro conjI impI)
  assume "truthy_str l_email \<and> truthy_str l_password
        \<and> find (\<lambda>a. email a = the l_email \<and> ativo a) (fst (lerAdmins amb s)) = Some adm
        \<and> bcrypt_compare amb (the l_password) (senha adm)"
  then show "status (fst (login amb l_email l_password s)) = 200"
    by (simp add: login_ignores_save)
qed (simp_all add: eventos_save_converted save_converted_noticias save_converted_admins
      save_converted_contatos eventos_save_checked noticias_save_checked admins_save_checked
      contatos_save_checked)

text \<open>
  The claim as stated fails for the last-login stamp: with the administrators file not
  writable the save returns false, and the login still answers 200.
\<close>

theorem save_result_checked_counterexample:
  "ADMINS_FILE \<in> unwritable fs5
   \<and> fst (salvarAdmins [adm1\<lparr>ultimoLogin := Some ''2025-08-28T21:30:45.124Z''\<rparr>, adm2] fs5) = False
   \<and> status (fst (login amb0 (Some ''admin@blockchaininsper.com.br'')
                    (Some ''BlockchainInsper2024!'') fs5)) = 200
   \<and> snd (login amb0 (Some ''admin@blockchaininsper.com.br'') (Some ''BlockchainInsper2024!'') fs5)
       = fs5"
  by (simp add: login_def split_beta Let_def ler_unwritable salvar_unwritable fs5_def fs3_def
      fs_vazio_def lerAdmins_def ler_com_padrao_def readJson_def truthy_str_def adm1_def adm2_def
      amb0_simps)

text \<open>The statement at a state none of whose collection files can be written.\<close>

theorem save_result_checked_witness:
  "EVENTOS_FILE \<in> unwritable fs7 \<and> NOTICIAS_FILE \<in> unwritable fs7
   \<and> ADMINS_FILE \<in> unwritable fs7 \<and> CONTATOS_FILE \<in> unwritable fs7
   \<and> MENSAGENS_FILE \<in> unwritable fs7
   \<and> status (fst (criar_evento amb0 body0 (gravavel fs7))) = 201
   \<and> status (fst (criar_evento amb0 body0 fs7)) = 500
   \<and> snd (criar_evento amb0 body0 fs7) = fs7
   \<and> status (fst (excluir_noticia amb0 (Some 1) (gravavel fs7))) = 200
   \<and> status (fst (excluir_noticia amb0 (Some 1) fs7)) = 500
   \<and> status (fst (alterar_senha_admin amb0 (Some 1) (Some ''12345678'') (gravavel fs7))) = 200
   \<and> status (fst (alterar_senha_admin amb0 (Some 1) (Some ''12345678'') fs7)) = 500
   \<and> status (fst (atualizar_contatos amb0 bodyC (gravavel fs7))) = 200
   \<and> status (fst (atualizar_contatos amb0 bodyC fs7)) = 500
   \<and> status (fst (enviar_mensagem amb0 (Some ''Ana'') (Some ''ana@insper.edu.br'') (Some ''Oi'')
                    (gravavel fs7))) = 200
   \<and> status (fst (enviar_mensagem amb0 (Some ''Ana'') (Some ''ana@insper.edu.br'') (Some ''Oi'')
                    fs7)) = 500
   \<and> status (fst (login amb0 (Some ''admin@blockchaininsper.com.br'')
                    (Some ''BlockchainInsper2024!'') fs7)) = 200"
proof -
  have h: "EVENTOS_FILE \<in> unwritable fs7" "NOTICIAS_FILE \<in> unwritable fs7"
    "ADMINS_FILE \<in> unwritable fs7" "CONTATOS_FILE \<in> unwritable fs7"
    "MENSAGENS_FILE \<in> unwritable fs7"
    by (simp_all add: fs7_def)
  have l: "fst (lerNoticias fs7) = [noticia1]" "fst (lerAdmins amb0 fs7) = [adm1, adm2]"
    "fst (lerEventos fs7) = [evento1]" "fst (lerMensagens fs7) = []"
    by (simp_all add: lerEventos_def lerNoticias_def lerAdmins_def lerMensagens_def
        ler_com_padrao_def readJson_def fs7_def fs3_def fs_vazio_def)
  have g1: "status (fst (criar_evento amb0 body0 (gravavel fs7))) = 201"
    by (simp add: criar_evento_def split_beta Let_def salvar_gravavel ler_gravavel l body0_def
        novoId_def amb0_simps)
  have g2: "status (fst (excluir_noticia amb0 (Some 1) (gravavel fs7))) = 200"
    by (simp add: excluir_noticia_def split_beta Let_def salvar_gravavel ler_gravavel l
        noticia1_def)
  have g3: "status (fst (alterar_senha_admin amb0 (Some 1) (Some ''12345678'') (gravavel fs7))) = 200"
    by (simp add: alterar_senha_admin_def split_beta Let_def salvar_gravavel ler_gravavel l
        adm1_def truthy_str_def)
  have g4: "status (fst (atualizar_contatos amb0 bodyC (gravavel fs7))) = 200"
    by (simp add: atualizar_contatos_def split_beta Let_def salvar_gravavel bodyC_def)
  have g5: "status (fst (enviar_mensagem amb0 (Some ''Ana'') (Some ''ana@insper.edu.br'')
                     (Some ''Oi'') (gravavel fs7))) = 200"
    by (simp add: enviar_mensagem_def split_beta Let_def salvar_gravavel ler_gravavel l email_ok
        truthy_str_def novoId_def amb0_simps)
  have g6: "truthy_str (Some ''admin@blockchaininsper.com.br'')
      \<and> truthy_str (Some ''BlockchainInsper2024!'')
      \<and> find (\<lambda>a. email a = the (Some ''admin@blockchaininsper.com.br'') \<and> ativo a)
            (fst (lerAdmins amb0 fs7)) = Some adm1
      \<and> bcrypt_compare amb0 (the (Some ''BlockchainInsper2024!'')) (senha adm1)"
  proof -
    have "bcrypt_compare amb0 ''BlockchainInsper2024!'' (senha adm1)"
      by (simp add: amb0_simps adm1_def)
    then show ?thesis by (simp add: l truthy_str_def adm1_def)
  qed
  from save_result_checked
         [where s = fs7 and amb = amb0 and body = body0 and pid = "Some 1"
            and novaSenha = "Some ''12345678''" and p_nome = "Some ''Ana''"
            and p_email = "Some ''ana@insper.edu.br''" and p_mensagem = "Some ''Oi''"
            and l_email = "Some ''admin@blockchaininsper.com.br''"
            and l_password = "Some ''BlockchainInsper2024!''" and adm = adm1]
       save_result_checked [where s = fs7 and amb = amb0 and body = bodyC]
       h g1 g2 g3 g4 g5 g6
  show ?thesis by (simp add: storage_failure_def)
qed

text \<open>
  C6, as the code has it. Write \<open>prox ids\<close> for the maximum of the ids and 0, plus one,
  and call a list of ids safe when each is below \<open>2^53\<close>. (1) A successful create of an
  event, a news item, an administrator or a message appends one entity to the loaded
  collection; the collection has fewer entries than the engine accepts arguments, and
  when the loaded ids are safe the id of the new entity is \<open>prox\<close> of them. (2) After a
  sequence of create requests on one collection, if the largest id before plus the
  number of requests is at most \<open>2^53\<close>, the ids of the collection are the ids before
  followed by \<open>prox ids\<close>, \<open>prox ids + 1\<close>, ... one for each successful request; such a
  run is strictly increasing and every id before is smaller than each of its members,
  so the new ids are unique. (3) The id computation gives \<open>prox ids\<close> for a safe list
  shorter than the argument limit, and throws for a list that is not shorter. (4) With
  safe ids, creating a message, deleting it (it has the maximum id) and creating
  another message gives the second message the id of the first: the id is reused.
\<close>

theorem create_assigns_next_id:
  fixes amb amb' :: ambiente and s :: fs
    and p_nome p_email p_mensagem p_nome' p_email' p_mensagem' :: "string option"
  defines "prox \<equiv> \<lambda>ids. Max (insert (0::int) (set ids)) + 1"
  defines "seguro \<equiv> \<lambda>ids. list_all (\<lambda>x. x < (2::int) ^ 53) ids"
  defines "r1 \<equiv> enviar_mensagem amb p_nome p_email p_mensagem s"
  defines "r2 \<equiv> excluir_mensagem (data (fst r1)) (snd r1)"
  defines "r3 \<equiv> enviar_mensagem amb' p_nome' p_email' p_mensagem' (snd r2)"
  shows
   "(status (fst (criar_evento amb body s)) = 201 \<longrightarrow>
       length (fst (lerEventos s)) < max_args amb
       \<and> (\<exists>e. data (fst (criar_evento amb body s)) = Some e
          \<and> eventos_json (snd (criar_evento amb body s)) = Content (fst (lerEventos s) @ [e])
          \<and> (seguro (map item_id (fst (lerEventos s))) \<longrightarrow>
               item_id e = prox (map item_id (fst (lerEventos s))))))
    \<and> (status (fst (criar_noticia amb body s)) = 201 \<longrightarrow>
       length (fst (lerNoticias s)) < max_args amb
       \<and> (\<exists>e. data (fst (criar_noticia amb body s)) = Some e
          \<and> noticias_json (snd (criar_noticia amb body s)) = Content (fst (lerNoticias s) @ [e])
          \<and> (seguro (map item_id (fst (lerNoticias s))) \<longrightarrow>
               item_id e = prox (map item_id (fst (lerNoticias s))))))
    \<and> (status (fst (criar_admin amb p_nome p_email p_senha p_role s)) = 201 \<longrightarrow>
       length (fst (lerAdmins amb s)) < max_args amb
       \<and> (\<exists>a. admins_json (snd (criar_admin amb p_nome p_email p_senha p_role s))
               = Content (fst (lerAdmins amb s) @ [a])
          \<and> (seguro (map admin_id (fst (lerAdmins amb s))) \<longrightarrow>
               admin_id a = prox (map admin_id (fst (lerAdmins amb s))))))
    \<and> (status (fst r1) = 200 \<longrightarrow>
       length (fst (lerMensagens s)) < max_args amb
       \<and> (\<exists>m. data (fst r1) = Some (msg_id m)
          \<and> mensagens_json (snd r1) = Content (fst (lerMensagens s) @ [m])
          \<and> (seguro (map msg_id (fst (lerMensagens s))) \<longrightarrow>
               msg_id m = prox (map msg_id (fst (lerMensagens s))))))
    \<and> (Max (insert 0 (set (map item_id (fst (lerEventos s))))) + int (length qe) \<le> 2 ^ 53 \<longrightarrow>
       map item_id (fst (lerEventos (snd (em_sequencia (\<lambda>(amb, body). criar_evento amb body) qe s))))
        = map item_id (fst (lerEventos s))
          @ map (\<lambda>k. prox (map item_id (fst (lerEventos s))) + int k)
              [0 ..< sucessos (fst (em_sequencia (\<lambda>(amb, body). criar_evento amb body) qe s))])
    \<and> (Max (insert 0 (set (map item_id (fst (lerNoticias s))))) + int (length qn) \<le> 2 ^ 53 \<longrightarrow>
       map item_id (fst (lerNoticias (snd (em_sequencia (\<lambda>(amb, body). criar_noticia amb body) qn s))))
        = map item_id (fst (lerNoticias s))
          @ map (\<lambda>k. prox (map item_id (fst (lerNoticias s))) + int k)
              [0 ..< sucessos (fst (em_sequencia (\<lambda>(amb, body). criar_noticia amb body) qn s))])
    \<and> (Max (insert 0 (set (map admin_id (fst (lerAdmins amb s))))) + int (length qa) \<le> 2 ^ 53 \<longrightarrow>
       map admin_id (fst (lerAdmins amb
          (snd (em_sequencia (\<lambda>(amb, n, e, p, r). criar_admin amb n e p r) qa s))))
        = map admin_id (fst (lerAdmins amb s))
          @ map (\<lambda>k. prox (map admin_id (fst (lerAdmins amb s))) + int k)
              [0 ..< sucessos (fst (em_sequencia (\<lambda>(amb, n, e, p, r). criar_admin amb n e p r) qa s))])
    \<and> (Max (insert 0 (set (map msg_id (fst (lerMensagens s))))) + int (length qm) \<le> 2 ^ 53 \<longrightarrow>
       map msg_id (fst (lerMensagens
          (snd (em_sequencia (\<lambda>(amb, n, e, m). enviar_mensagem amb n e m) qm s))))
        = map msg_id (fst (lerMensagens s))
          @ map (\<lambda>k. prox (map msg_id (fst (lerMensagens s))) + int k)
              [0 ..< sucessos (fst (em_sequencia (\<lambda>(amb, n, e, m). enviar_mensagem amb n e m) qm s))])
    \<and> (length ids < limite \<and> seguro ids \<longrightarrow> novoId limite ids = Some (prox ids))
    \<and> (limite \<le> length ids \<longrightarrow> novoId limite ids = None)
    \<and> sorted_wrt (<) (map (\<lambda>k. prox ids + int k) [0 ..< c])
    \<and> (\<forall>x \<in> set ids. \<forall>k. x < prox ids + int k)
    \<and> (seguro (map msg_id (fst (lerMensagens s)))
         \<and> status (fst r1) = 200 \<and> status (fst r3) = 200 \<longrightarrow>
          status (fst r2) = 200 \<and> data (fst r3) = data (fst r1))"
proof -
  have px: "foldr max xs 0 + 1 = prox xs" for xs
    by (simp add: prox_def foldr_max_Max)
  have sg: "mais_um (foldr max xs 0) = prox xs" if "seguro xs" for xs
  proof -
    from that have "\<forall>x \<in> set xs. x < 2 ^ 53" by (simp add: seguro_def list_all_iff)
    then have "foldr max xs 0 < (2::int) ^ 53" by (rule foldr_max_seguro) simp
    then show ?thesis by (simp add: mais_um_seguro px)
  qed
  have a1: "status (fst (criar_evento amb body s)) = 201 \<longrightarrow>
       length (fst (lerEventos s)) < max_args amb
       \<and> (\<exists>e. data (fst (criar_evento amb body s)) = Some e
          \<and> eventos_json (snd (criar_evento amb body s)) = Content (fst (lerEventos s) @ [e])
          \<and> (seguro (map item_id (fst (lerEventos s))) \<longrightarrow>
               item_id e = prox (map item_id (fst (lerEventos s)))))"
    using criar_evento_cases [of amb body s] sg [of "map item_id (fst (lerEventos s))"] by auto
  have a2: "status (fst (criar_noticia amb body s)) = 201 \<longrightarrow>
       length (fst (lerNoticias s)) < max_args amb
       \<and> (\<exists>e. data (fst (criar_noticia amb body s)) = Some e
          \<and> noticias_json (snd (criar_noticia amb body s)) = Content (fst (lerNoticias s) @ [e])
          \<and> (seguro (map item_id (fst (lerNoticias s))) \<longrightarrow>
               item_id e = prox (map item_id (fst (lerNoticias s)))))"
    using criar_noticia_cases [of amb body s] sg [of "map item_id (fst (lerNoticias s))"] by auto
  have a3: "status (fst (criar_admin amb p_nome p_email p_senha p_role s)) = 201 \<longrightarrow>
       length (fst (lerAdmins amb s)) < max_args amb
       \<and> (\<exists>a. admins_json (snd (criar_admin amb p_nome p_email p_senha p_role s))
               = Content (fst (lerAdmins amb s) @ [a])
          \<and> (seguro (map admin_id (fst (lerAdmins amb s))) \<longrightarrow>
               admin_id a = prox (map admin_id (fst (lerAdmins amb s)))))"
    using criar_admin_cases [of amb p_nome p_email p_senha p_role s amb]
      sg [of "map admin_id (fst (lerAdmins amb s))"] by auto
  have a4: "status (fst r1) = 200 \<longrightarrow>
       length (fst (lerMensagens s)) < max_args amb
       \<and> (\<exists>m. data (fst r1) = Some (msg_id m)
          \<and> mensagens_json (snd r1) = Content (fst (lerMensagens s) @ [m])
          \<and> (seguro (map msg_id (fst (lerMensagens s))) \<longrightarrow>
               msg_id m = prox (map msg_id (fst (lerMensagens s)))))"
    unfolding r1_def
    using enviar_mensagem_cases [of amb p_nome p_email p_mensagem s]
      sg [of "map msg_id (fst (lerMensagens s))"] by auto
  have b1: "Max (insert 0 (set (map item_id (fst (lerEventos s))))) + int (length qe) \<le> 2 ^ 53 \<longrightarrow>
       map item_id (fst (lerEventos (snd (em_sequencia (\<lambda>(amb, body). criar_evento amb body) qe s))))
        = map item_id (fst (lerEventos s))
          @ map (\<lambda>k. prox (map item_id (fst (lerEventos s))) + int k)
              [0 ..< sucessos (fst (em_sequencia (\<lambda>(amb, body). criar_evento amb body) qe s))]"
    unfolding px [symmetric] foldr_max_Max [symmetric] by (intro impI seq_eventos)
  have b2: "Max (insert 0 (set (map item_id (fst (lerNoticias s))))) + int (length qn) \<le> 2 ^ 53 \<longrightarrow>
       map item_id (fst (lerNoticias (snd (em_sequencia (\<lambda>(amb, body). criar_noticia amb body) qn s))))
        = map item_id (fst (lerNoticias s))
          @ map (\<lambda>k. prox (map item_id (fst (lerNoticias s))) + int k)
              [0 ..< sucessos (fst (em_sequencia (\<lambda>(amb, body). criar_noticia amb body) qn s))]"
    unfolding px [symmetric] foldr_max_Max [symmetric] by (intro impI seq_noticias)
  have b3: "Max (insert 0 (set (map admin_id (fst (lerAdmins amb s))))) + int (length qa) \<le> 2 ^ 53 \<longrightarrow>
       map admin_id (fst (lerAdmins amb
          (snd (em_sequencia (\<lambda>(amb, n, e, p, r). criar_admin amb n e p r) qa s))))
        = map admin_id (fst (lerAdmins amb s))
          @ map (\<lambda>k. prox (map admin_id (fst (lerAdmins amb s))) + int k)
              [0 ..< sucessos (fst (em_sequencia (\<lambda>(amb, n, e, p, r). criar_admin amb n e p r) qa s))]"
    unfolding px [symmetric] foldr_max_Max [symmetric] by (intro impI seq_admins)
  have b4: "Max (insert 0 (set (map msg_id (fst (lerMensagens s))))) + int (length qm) \<le> 2 ^ 53 \<longrightarrow>
       map msg_id (fst (lerMensagens
          (snd (em_sequencia (\<lambda>(amb, n, e, m). enviar_mensagem amb n e m) qm s))))
        = map msg_id (fst (lerMensagens s))
          @ map (\<lambda>k. prox (map msg_id (fst (lerMensagens s))) + int k)
              [0 ..< sucessos (fst (em_sequencia (\<lambda>(amb, n, e, m). enviar_mensagem amb n e m) qm s))]"
    unfolding px [symmetric] foldr_max_Max [symmetric] by (intro impI seq_mensagens)
  have n1: "length ids < limite \<and> seguro ids \<longrightarrow> novoId limite ids = Some (prox ids)"
    using novoId_seguro [of ids limite] by (simp add: seguro_def list_all_iff prox_def)
  have n2: "limite \<le> length ids \<longrightarrow> novoId limite ids = None"
    by (simp add: novoId_def)
  have i1: "sorted_wrt (<) (map (\<lambda>k. prox ids + int k) [0 ..< c])"
    by (rule created_ids_increasing)
  have i2: "\<forall>x \<in> set ids. \<forall>k. x < prox ids + int k"
  proof (intro ballI allI)
    fix x k assume "x \<in> set ids"
    then have "x \<le> foldr max ids 0" by (rule foldr_max_ge)
    then show "x < prox ids + int k" unfolding px [symmetric] by simp
  qed
  have r: "seguro (map msg_id (fst (lerMensagens s)))
         \<and> status (fst r1) = 200 \<and> status (fst r3) = 200 \<longrightarrow>
          status (fst r2) = 200 \<and> data (fst r3) = data (fst r1)"
    unfolding r1_def r2_def r3_def seguro_def list_all_iff
    using mensagem_id_reused [of s amb p_nome p_email p_mensagem amb' p_nome' p_email' p_mensagem']
    by blast
  show ?thesis
    by (intro conjI a1 a2 a3 a4 b1 b2 b3 b4 n1 n2 i1 i2 r)
qed

text \<open>
  The claim as stated fails at the id \<open>2^53\<close>. In a state whose only event has the id
  9007199254740992, a create is answered 201 and the new event gets the same id:
  it is not the maximum plus one, and the ids of the collection are no longer unique.
\<close>

theorem create_assigns_next_id_counterexample:
  "map item_id (fst (lerEventos fs10)) = [9007199254740992]
   \<and> status (fst (criar_evento amb0 body0 fs10)) = 201
   \<and> map item_id (fst (lerEventos (snd (criar_evento amb0 body0 fs10))))
       = [9007199254740992, 9007199254740992]"
  by (simp add: criar_evento_def split_beta Let_def lerEventos_def ler_com_padrao_def
      readJson_def salvarEventos_def salvar_def write_eventos_def writeFile_def novoId_def
      mais_um_def amb0_simps body0_def fs10_def fs_vazio_def evento_grande_def)

text \<open>
  The statement at a state with one event, one news item, two administrators and no
  message, and at an engine that accepts a single argument.
\<close>

theorem create_assigns_next_id_witness:
  "status (fst (criar_evento amb0 body0 fs8)) = 201
   \<and> map item_id (fst (lerEventos fs8)) = [1]
   \<and> list_all (\<lambda>x. x < (2::int) ^ 53) [1]
   \<and> (\<exists>e. data (fst (criar_evento amb0 body0 fs8)) = Some e
         \<and> eventos_json (snd (criar_evento amb0 body0 fs8)) = Content (fst (lerEventos fs8) @ [e])
         \<and> item_id e = 2)
   \<and> status (fst (criar_noticia amb0 bodyN fs8)) = 201
   \<and> (\<exists>e. data (fst (criar_noticia amb0 bodyN fs8)) = Some e \<and> item_id e = 2)
   \<and> status (fst (criar_admin amb0 (Some ''Rui'') (Some ''rui@insper.edu.br'') (Some ''12345678'')
                    None fs8)) = 201
   \<and> (\<exists>a. admins_json (snd (criar_admin amb0 (Some ''Rui'') (Some ''rui@insper.edu.br'')
                                 (Some ''12345678'') None fs8))
               = Content ([adm1, adm2] @ [a]) \<and> admin_id a = 3)
   \<and> status (fst (enviar_mensagem amb0 (Some ''Ana'') (Some ''ana@insper.edu.br'') (Some ''Oi'')
                    fs8)) = 200
   \<and> data (fst (enviar_mensagem amb0 (Some ''Ana'') (Some ''ana@insper.edu.br'') (Some ''Oi'') fs8))
       = Some 1
   \<and> status (fst (enviar_mensagem amb0 (Some ''Rui'') (Some ''rui@insper.edu.br'') (Some ''Ola'')
         (snd (excluir_mensagem (Some 1)
            (snd (enviar_mensagem amb0 (Some ''Ana'') (Some ''ana@insper.edu.br'') (Some ''Oi'')
                    fs8)))))) = 200
   \<and> data (fst (enviar_mensagem amb0 (Some ''Rui'') (Some ''rui@insper.edu.br'') (Some ''Ola'')
         (snd (excluir_mensagem (Some 1)
            (snd (enviar_mensagem amb0 (Some ''Ana'') (Some ''ana@insper.edu.br'') (Some ''Oi'')
                    fs8)))))) = Some 1
   \<and> Max (insert 0 (set (map item_id (fst (lerEventos fs8))))) + int (length [(amb0, body0), (amb0, body0)])
       \<le> 2 ^ 53
   \<and> sucessos (fst (em_sequencia (\<lambda>(amb, body). criar_evento amb body)
                      [(amb0, body0), (amb0, body0)] fs8)) = 2
   \<and> map item_id (fst (lerEventos (snd (em_sequencia (\<lambda>(amb, body). criar_evento amb body)
                                          [(amb0, body0), (amb0, body0)] fs8))))
       = [1, 2, 3]
   \<and> novoId 120000 [1, 2] = Some 3
   \<and> novoId 2 [1, 2] = None
   \<and> \<not> length (fst (lerEventos fs8)) < max_args (amb0\<lparr>max_args := 1\<rparr>)
   \<and> status (fst (criar_evento (amb0\<lparr>max_args := 1\<rparr>) body0 fs8)) = 500"
proof -
  have l: "fst (lerEventos fs8) = [evento1]" "fst (lerNoticias fs8) = [noticia1]"
    "fst (lerAdmins amb0 fs8) = [adm1, adm2]" "fst (lerMensagens fs8) = []"
    "unwritable fs8 = {}"
    "unwritable (snd (lerEventos fs8)) = {}" "unwritable (snd (lerNoticias fs8)) = {}"
    "unwritable (snd (lerAdmins amb0 fs8)) = {}" "unwritable (snd (lerMensagens fs8)) = {}"
    by (simp_all add: lerEventos_def lerNoticias_def lerAdmins_def lerMensagens_def
        ler_com_padrao_def readJson_def fs8_def fs3_def fs_vazio_def)
  have i: "item_id evento1 = 1" "item_id noticia1 = 1" "admin_id adm1 = 1" "admin_id adm2 = 2"
    by (simp_all add: evento1_def noticia1_def adm1_def adm2_def)
  have e: "emailRegex ''rui@insper.edu.br''" "emailRegex ''ana@insper.edu.br''"
    by code_simp+
  have h1: "status (fst (criar_evento amb0 body0 fs8)) = 201"
    by (simp add: criar_evento_def split_beta Let_def body0_def salvar_eq l novoId_def amb0_simps)
  have h2: "status (fst (criar_noticia amb0 bodyN fs8)) = 201"
    by (simp add: criar_noticia_def split_beta Let_def bodyN_def salvar_eq l novoId_def amb0_simps)
  have h3: "status (fst (criar_admin amb0 (Some ''Rui'') (Some ''rui@insper.edu.br'')
                      (Some ''12345678'') None fs8)) = 201"
    by (simp add: criar_admin_def split_beta Let_def salvar_eq l e truthy_str_def adm1_def adm2_def
        novoId_def amb0_simps)
  have h4: "status (fst (enviar_mensagem amb0 (Some ''Ana'') (Some ''ana@insper.edu.br'')
                      (Some ''Oi'') fs8)) = 200"
    by (simp add: enviar_mensagem_def split_beta Let_def salvar_eq l e truthy_str_def novoId_def
        amb0_simps)
  note t1 = create_assigns_next_id [where amb = amb0 and body = body0 and s = fs8, THEN conjunct1]
  note t2 = create_assigns_next_id [where amb = amb0 and body = bodyN and s = fs8,
      THEN conjunct2, THEN conjunct1]
  note t3 = create_assigns_next_id
      [where amb = amb0 and s = fs8 and p_nome = "Some ''Rui''"
         and p_email = "Some ''rui@insper.edu.br''" and p_senha = "Some ''12345678''"
         and p_role = None, THEN conjunct2, THEN conjunct2, THEN conjunct1]
  note t = create_assigns_next_id
      [where amb = amb0 and s = fs8 and p_nome = "Some ''Ana''"
         and p_email = "Some ''ana@insper.edu.br''" and p_mensagem = "Some ''Oi''"
         and amb' = amb0 and p_nome' = "Some ''Rui''" and p_email' = "Some ''rui@insper.edu.br''"
         and p_mensagem' = "Some ''Ola''"]
  note t4 = t [THEN conjunct2, THEN conjunct2, THEN conjunct2, THEN conjunct1]
  note t5 = t [THEN conjunct2, THEN conjunct2, THEN conjunct2, THEN conjunct2, THEN conjunct2,
      THEN conjunct2, THEN conjunct2, THEN conjunct2, THEN conjunct2, THEN conjunct2,
      THEN conjunct2, THEN conjunct2]
  note t6 = create_assigns_next_id
      [where s = fs8 and qe = "[(amb0, body0), (amb0, body0)]",
       THEN conjunct2, THEN conjunct2, THEN conjunct2, THEN conjunct2, THEN conjunct1]
  note t7 = create_assigns_next_id
      [where ids = "[1, 2]" and limite = 120000,
       THEN conjunct2, THEN conjunct2, THEN conjunct2, THEN conjunct2, THEN conjunct2,
       THEN conjunct2, THEN conjunct2, THEN conjunct2, THEN conjunct1]
  note t8 = create_assigns_next_id
      [where ids = "[1, 2]" and limite = 2,
       THEN conjunct2, THEN conjunct2, THEN conjunct2, THEN conjunct2, THEN conjunct2,
       THEN conjunct2, THEN conjunct2, THEN conjunct2, THEN conjunct2, THEN conjunct1]
  have sg: "list_all (\<lambda>x. x < (2::int) ^ 53) [1]" by simp
  have w1: "\<exists>e. data (fst (criar_evento amb0 body0 fs8)) = Some e
         \<and> eventos_json (snd (criar_evento amb0 body0 fs8)) = Content (fst (lerEventos fs8) @ [e])
         \<and> item_id e = 2"
    using t1 h1 by (simp add: l i)
  have w2: "\<exists>e. data (fst (criar_noticia amb0 bodyN fs8)) = Some e \<and> item_id e = 2"
    using t2 h2 by (auto simp: l i)
  have w3: "\<exists>a. admins_json (snd (criar_admin amb0 (Some ''Rui'') (Some ''rui@insper.edu.br'')
                                 (Some ''12345678'') None fs8))
               = Content ([adm1, adm2] @ [a]) \<and> admin_id a = 3"
    using t3 h3 by (simp add: l i)
  have d: "data (fst (enviar_mensagem amb0 (Some ''Ana'') (Some ''ana@insper.edu.br'') (Some ''Oi'') fs8))
       = Some 1"
    using t4 h4 by (auto simp: l)
  have h5: "status (fst (enviar_mensagem amb0 (Some ''Rui'') (Some ''rui@insper.edu.br'') (Some ''Ola'')
         (snd (excluir_mensagem (Some 1)
            (snd (enviar_mensagem amb0 (Some ''Ana'') (Some ''ana@insper.edu.br'') (Some ''Oi'')
                    fs8)))))) = 200"
    by (simp add: enviar_mensagem_def excluir_mensagem_def split_beta Let_def salvar_eq l e
        truthy_str_def lerMensagens_def readJson_def splice1_def fs8_def fs3_def fs_vazio_def
        novoId_def mais_um_def amb0_simps)
  have w5: "data (fst (enviar_mensagem amb0 (Some ''Rui'') (Some ''rui@insper.edu.br'') (Some ''Ola'')
         (snd (excluir_mensagem (Some 1)
            (snd (enviar_mensagem amb0 (Some ''Ana'') (Some ''ana@insper.edu.br'') (Some ''Oi'')
                    fs8)))))) = Some 1"
    using t5 h4 h5 unfolding d by (simp add: d l)
  have q0: "Max (insert 0 (set (map item_id (fst (lerEventos fs8)))))
              + int (length [(amb0, body0), (amb0, body0)]) \<le> 2 ^ 53"
    by (simp add: l i)
  have q1: "sucessos (fst (em_sequencia (\<lambda>(amb, body). criar_evento amb body)
                      [(amb0, body0), (amb0, body0)] fs8)) = 2"
    by (simp add: sucessos_def criar_evento_def split_beta Let_def body0_def salvar_eq
        lerEventos_def ler_com_padrao_def readJson_def novoId_def amb0_simps fs8_def fs3_def
        fs_vazio_def)
  have q2: "map item_id (fst (lerEventos (snd (em_sequencia (\<lambda>(amb, body). criar_evento amb body)
                                          [(amb0, body0), (amb0, body0)] fs8))))
       = [1, 2, 3]"
    using t6 q0 unfolding q1 by (simp add: l i upt_conv_Cons)
  have q3: "novoId 120000 [1, 2] = Some 3" using t7 by simp
  have q4: "novoId 2 [1, 2] = None" using t8 by simp
  have q5: "\<not> length (fst (lerEventos fs8)) < max_args (amb0\<lparr>max_args := 1\<rparr>)"
    by (simp add: l)
  have q6: "status (fst (criar_evento (amb0\<lparr>max_args := 1\<rparr>) body0 fs8)) = 500"
    by (simp add: criar_evento_def split_beta Let_def l novoId_def body0_def)
  from h1 h2 h3 h4 h5 w1 w2 w3 w5 d l(1) i(1) sg q0 q1 q2 q3 q4 q5 q6 show ?thesis by simp
qed

text \<open>
  C9, as the code has it. A successful update replaces the entity at the index found and
  nothing else. For an event or a news item: the id is kept; a whitelisted key that the
  input leaves undefined keeps its stored value, and a whitelisted key that the input
  defines takes the input's value, whatever it is (the empty string and null included);
  a key outside the whitelist keeps its stored value, except \<open>atualizadoEm\<close>, which is
  stamped, and \<open>dataFormatada\<close>, which is derived again when the input's \<open>data\<close> is
  truthy: \<open>atualizadoEm\<close> holds the clock reading of the update, and with a truthy
  \<open>data\<close> in the input \<open>dataFormatada\<close> holds that date as the locale formatter prints
  it. For an administrator: id, password hash, creation time and last login are
  kept; \<open>nome\<close>, \<open>email\<close> and \<open>role\<close> take the input's value when it is truthy and keep
  the stored one when it is undefined or empty; \<open>ativo\<close> takes the input's value when it
  is a boolean and keeps the stored one otherwise; \<open>atualizadoEm\<close> holds the clock
  reading of the update.
\<close>

theorem update_applies_whitelist:
  fixes amb :: ambiente and upd :: "string \<rightharpoonup> json" and e :: item and a :: admin
    and p_nome p_email p_role :: "string option" and p_ativo :: "bool option"
  defines "e1 \<equiv> atualizar_item amb camposPermitidos_evento upd e"
  defines "n1 \<equiv> atualizar_item amb camposPermitidos_noticia upd e"
  defines "a1 \<equiv> aplicar_admin amb p_nome p_email p_role p_ativo a"
  shows
   "(status (fst (atualizar_evento amb pid upd s)) = 200 \<longrightarrow>
       (\<exists>i. findIndex (\<lambda>x. Some (item_id x) = pid) (fst (lerEventos s)) = Some i
          \<and> eventos_json (snd (atualizar_evento amb pid upd s))
              = Content ((fst (lerEventos s))
                  [i := atualizar_item amb camposPermitidos_evento upd (fst (lerEventos s) ! i)])))
    \<and> (status (fst (atualizar_noticia amb pid upd s)) = 200 \<longrightarrow>
       (\<exists>i. findIndex (\<lambda>x. Some (item_id x) = pid) (fst (lerNoticias s)) = Some i
          \<and> noticias_json (snd (atualizar_noticia amb pid upd s))
              = Content ((fst (lerNoticias s))
                  [i := atualizar_item amb camposPermitidos_noticia upd (fst (lerNoticias s) ! i)])))
    \<and> (status (fst (atualizar_admin amb pid p_nome p_email p_role p_ativo s)) = 200 \<longrightarrow>
       (\<exists>i. findIndex (\<lambda>x. Some (admin_id x) = pid) (fst (lerAdmins amb s)) = Some i
          \<and> admins_json (snd (atualizar_admin amb pid p_nome p_email p_role p_ativo s))
              = Content ((fst (lerAdmins amb s))
                  [i := aplicar_admin amb p_nome p_email p_role p_ativo (fst (lerAdmins amb s) ! i)])))
    \<and> item_id e1 = item_id e
    \<and> (k \<in> set camposPermitidos_evento \<longrightarrow>
         campos e1 k = (case upd k of None \<Rightarrow> campos e k | Some v \<Rightarrow> Some v))
    \<and> (k \<notin> set camposPermitidos_evento \<and> k \<noteq> ''dataFormatada'' \<and> k \<noteq> ''atualizadoEm'' \<longrightarrow>
         campos e1 k = campos e k)
    \<and> (\<not> truthy (upd ''data'') \<longrightarrow> campos e1 ''dataFormatada'' = campos e ''dataFormatada'')
    \<and> item_id n1 = item_id e
    \<and> (k \<in> set camposPermitidos_noticia \<longrightarrow>
         campos n1 k = (case upd k of None \<Rightarrow> campos e k | Some v \<Rightarrow> Some v))
    \<and> (k \<notin> set camposPermitidos_noticia \<and> k \<noteq> ''dataFormatada'' \<and> k \<noteq> ''atualizadoEm'' \<longrightarrow>
         campos n1 k = campos e k)
    \<and> (\<not> truthy (upd ''data'') \<longrightarrow> campos n1 ''dataFormatada'' = campos e ''dataFormatada'')
    \<and> admin_id a1 = admin_id a \<and> senha a1 = senha a \<and> criadoEm a1 = criadoEm a
    \<and> ultimoLogin a1 = ultimoLogin a
    \<and> nome a1 = (if truthy_str p_nome then the p_nome else nome a)
    \<and> email a1 = (if truthy_str p_email then the p_email else email a)
    \<and> role a1 = (if truthy_str p_role then the p_role else role a)
    \<and> ativo a1 = (case p_ativo of None \<Rightarrow> ativo a | Some b \<Rightarrow> b)
    \<and> campos e1 ''atualizadoEm'' = Some (JStr (agora amb 0))
    \<and> (truthy (upd ''data'') \<longrightarrow>
         campos e1 ''dataFormatada''
           = Some (JStr (toLocaleDateString amb (the (upd ''data'')))))
    \<and> campos n1 ''atualizadoEm'' = Some (JStr (agora amb 0))
    \<and> (truthy (upd ''data'') \<longrightarrow>
         campos n1 ''dataFormatada''
           = Some (JStr (toLocaleDateString amb (the (upd ''data'')))))
    \<and> atualizadoEm a1 = agora amb 2"
proof -
  have st: "campos (atualizar_item amb cs upd e) ''atualizadoEm'' = Some (JStr (agora amb 0))"
    "truthy (upd ''data'') \<Longrightarrow>
       campos (atualizar_item amb cs upd e) ''dataFormatada''
         = Some (JStr (toLocaleDateString amb (the (upd ''data''))))" for cs
    by (simp_all add: campos_atualizar_item)
  have sa: "atualizadoEm (aplicar_admin amb p_nome p_email p_role p_ativo a) = agora amb 2"
    by (simp add: aplicar_admin_def Let_def split: option.splits)
  have ev: "''dataFormatada'' \<notin> set camposPermitidos_evento"
    "''atualizadoEm'' \<notin> set camposPermitidos_evento"
    by (simp_all add: camposPermitidos_evento_def)
  have nt: "''dataFormatada'' \<notin> set camposPermitidos_noticia"
    "''atualizadoEm'' \<notin> set camposPermitidos_noticia"
    by (simp_all add: camposPermitidos_noticia_def)
  note fe = atualizar_item_frame [OF ev, where amb = amb and upd = upd and e = e]
  note fn = atualizar_item_frame [OF nt, where amb = amb and upd = upd and e = e]
  show ?thesis
    unfolding e1_def n1_def a1_def
    using atualizar_evento_ok [of amb pid upd s] atualizar_noticia_ok [of amb pid upd s]
      atualizar_admin_ok [of amb pid p_nome p_email p_role p_ativo s]
      fe(1) fe(2) [where k = k] fe(3) [where k = k] fe(4)
      fn(1) fn(2) [where k = k] fn(3) [where k = k] fn(4)
      st [where cs = camposPermitidos_evento] st [where cs = camposPermitidos_noticia]
    by (simp only: aplicar_admin_frame sa simp_thms) blast
qed

text \<open>
  The claim as stated fails for an empty field of an event: an update whose \<open>titulo\<close> is
  the empty string is answered 200 and the stored title, \<open>Meetup\<close> before, is the empty
  string afterwards.
\<close>

theorem update_applies_whitelist_counterexample:
  "campo_armazenado (eventos_json fs1) 1 ''titulo'' = Some (JStr ''Meetup'')
   \<and> status (fst (atualizar_evento amb0 (Some 1) [''titulo'' \<mapsto> JStr []] fs1)) = 200
   \<and> campo_armazenado
        (eventos_json (snd (atualizar_evento amb0 (Some 1) [''titulo'' \<mapsto> JStr []] fs1)))
        1 ''titulo'' = Some (JStr [])"
  by (simp add: campo_armazenado_def atualizar_evento_def atualizar_item_def aplicar_campos_def
      camposPermitidos_evento_def lerEventos_def ler_com_padrao_def readJson_def salvarEventos_def
      salvar_def write_eventos_def writeFile_def Let_def fs1_def fs_vazio_def evento1_def)

text \<open>
  The statement at an update of the location of event 1, of the author of news item 1
  and of the name of administrator 2.
\<close>

theorem update_applies_whitelist_witness:
  "status (fst (atualizar_evento amb0 (Some 1) [''local'' \<mapsto> JStr ''Sala 1''] fs8)) = 200
   \<and> (\<exists>i. findIndex (\<lambda>x. Some (item_id x) = Some 1) (fst (lerEventos fs8)) = Some i
        \<and> eventos_json (snd (atualizar_evento amb0 (Some 1) [''local'' \<mapsto> JStr ''Sala 1''] fs8))
            = Content ((fst (lerEventos fs8))
                [i := atualizar_item amb0 camposPermitidos_evento [''local'' \<mapsto> JStr ''Sala 1'']
                        (fst (lerEventos fs8) ! i)]))
   \<and> ''titulo'' \<in> set camposPermitidos_evento
   \<and> campos (atualizar_item amb0 camposPermitidos_evento [''local'' \<mapsto> JStr ''Sala 1''] evento1)
        ''titulo'' = Some (JStr ''Meetup'')
   \<and> ''criadoEm'' \<notin> set camposPermitidos_evento
   \<and> campos (atualizar_item amb0 camposPermitidos_evento [''local'' \<mapsto> JStr ''Sala 1''] evento1)
        ''criadoEm'' = Some (JStr ''2025-01-01T00:00:00.000Z'')
   \<and> status (fst (atualizar_noticia amb0 (Some 1) [''autor'' \<mapsto> JStr ''Rui''] fs8)) = 200
   \<and> (\<exists>i. findIndex (\<lambda>x. Some (item_id x) = Some 1) (fst (lerNoticias fs8)) = Some i
        \<and> noticias_json (snd (atualizar_noticia amb0 (Some 1) [''autor'' \<mapsto> JStr ''Rui''] fs8))
            = Content ((fst (lerNoticias fs8))
                [i := atualizar_item amb0 camposPermitidos_noticia [''autor'' \<mapsto> JStr ''Rui'']
                        (fst (lerNoticias fs8) ! i)]))
   \<and> campos (atualizar_item amb0 camposPermitidos_noticia [''autor'' \<mapsto> JStr ''Rui''] noticia1)
        ''dataFormatada'' = Some (JStr ''1 de janeiro de 2025'')
   \<and> status (fst (atualizar_admin amb0 (Some 2) (Some ''Ana Lima'') None None None fs8)) = 200
   \<and> (\<exists>i. findIndex (\<lambda>x. Some (admin_id x) = Some 2) (fst (lerAdmins amb0 fs8)) = Some i
        \<and> admins_json (snd (atualizar_admin amb0 (Some 2) (Some ''Ana Lima'') None None None fs8))
            = Content ((fst (lerAdmins amb0 fs8))
                [i := aplicar_admin amb0 (Some ''Ana Lima'') None None None
                        (fst (lerAdmins amb0 fs8) ! i)]))
   \<and> nome (aplicar_admin amb0 (Some ''Ana Lima'') None None None adm2) = ''Ana Lima''
   \<and> email (aplicar_admin amb0 (Some ''Ana Lima'') None None None adm2) = ''ana@insper.edu.br''
   \<and> atualizadoEm (aplicar_admin amb0 (Some ''Ana Lima'') None None None adm2)
       = ''2025-08-28T21:30:45.124Z''
   \<and> campos (atualizar_item amb0 camposPermitidos_evento [''local'' \<mapsto> JStr ''Sala 1''] evento1)
        ''atualizadoEm'' = Some (JStr ''2025-08-28T21:30:45.123Z'')
   \<and> truthy ([''data'' \<mapsto> JStr ''2025-08-28''] ''data'')
   \<and> campos (atualizar_item amb0 camposPermitidos_noticia [''data'' \<mapsto> JStr ''2025-08-28'']
               noticia1)
        ''dataFormatada'' = Some (JStr ''28 de agosto de 2025'')"
proof -
  have l: "fst (lerEventos fs8) = [evento1]" "fst (lerNoticias fs8) = [noticia1]"
    "fst (lerAdmins amb0 fs8) = [adm1, adm2]"
    "unwritable (snd (lerEventos fs8)) = {}" "unwritable (snd (lerNoticias fs8)) = {}"
    "unwritable (snd (lerAdmins amb0 fs8)) = {}"
    by (simp_all add: lerEventos_def lerNoticias_def lerAdmins_def
        ler_com_padrao_def readJson_def fs8_def fs3_def fs_vazio_def)
  have i: "item_id evento1 = 1" "item_id noticia1 = 1" "admin_id adm1 = 1" "admin_id adm2 = 2"
    "role adm2 = ''admin''" "email adm2 = ''ana@insper.edu.br''"
    by (simp_all add: evento1_def noticia1_def adm1_def adm2_def)
  have h1: "status (fst (atualizar_evento amb0 (Some 1) [''local'' \<mapsto> JStr ''Sala 1''] fs8)) = 200"
    by (simp add: atualizar_evento_def split_beta Let_def salvar_eq l i)
  have h2: "status (fst (atualizar_noticia amb0 (Some 1) [''autor'' \<mapsto> JStr ''Rui''] fs8)) = 200"
    by (simp add: atualizar_noticia_def split_beta Let_def salvar_eq l i)
  have h3: "status (fst (atualizar_admin amb0 (Some 2) (Some ''Ana Lima'') None None None fs8)) = 200"
    by (simp add: atualizar_admin_def split_beta Let_def salvar_eq l i truthy_str_def)
  have m: "''titulo'' \<in> set camposPermitidos_evento" "''criadoEm'' \<notin> set camposPermitidos_evento"
    by (simp_all add: camposPermitidos_evento_def)
  have c: "campos evento1 ''titulo'' = Some (JStr ''Meetup'')"
    "campos evento1 ''criadoEm'' = Some (JStr ''2025-01-01T00:00:00.000Z'')"
    "campos noticia1 ''dataFormatada'' = Some (JStr ''1 de janeiro de 2025'')"
    by (simp_all add: evento1_def noticia1_def)
  note te = update_applies_whitelist
      [where amb = amb0 and pid = "Some 1" and upd = "[''local'' \<mapsto> JStr ''Sala 1'']"
         and s = fs8 and e = evento1]
  note tn = update_applies_whitelist
      [where amb = amb0 and pid = "Some 1" and upd = "[''autor'' \<mapsto> JStr ''Rui'']"
         and s = fs8 and e = noticia1]
  note ta = update_applies_whitelist
      [where amb = amb0 and pid = "Some 2" and p_nome = "Some ''Ana Lima''" and p_email = None
         and p_role = None and p_ativo = None and s = fs8 and a = adm2]
  have w1: "\<exists>i. findIndex (\<lambda>x. Some (item_id x) = Some 1) (fst (lerEventos fs8)) = Some i
        \<and> eventos_json (snd (atualizar_evento amb0 (Some 1) [''local'' \<mapsto> JStr ''Sala 1''] fs8))
            = Content ((fst (lerEventos fs8))
                [i := atualizar_item amb0 camposPermitidos_evento [''local'' \<mapsto> JStr ''Sala 1'']
                        (fst (lerEventos fs8) ! i)])"
    using te [THEN conjunct1] h1 by blast
  have w2: "campos (atualizar_item amb0 camposPermitidos_evento [''local'' \<mapsto> JStr ''Sala 1''] evento1)
        ''titulo'' = Some (JStr ''Meetup'')"
    using te [where k = "''titulo''", THEN conjunct2, THEN conjunct2, THEN conjunct2, THEN conjunct2,
        THEN conjunct1] m c by simp
  have w3: "campos (atualizar_item amb0 camposPermitidos_evento [''local'' \<mapsto> JStr ''Sala 1''] evento1)
        ''criadoEm'' = Some (JStr ''2025-01-01T00:00:00.000Z'')"
    using te [where k = "''criadoEm''", THEN conjunct2, THEN conjunct2, THEN conjunct2,
        THEN conjunct2, THEN conjunct2, THEN conjunct1] m c by simp
  have w4: "\<exists>i. findIndex (\<lambda>x. Some (item_id x) = Some 1) (fst (lerNoticias fs8)) = Some i
        \<and> noticias_json (snd (atualizar_noticia amb0 (Some 1) [''autor'' \<mapsto> JStr ''Rui''] fs8))
            = Content ((fst (lerNoticias fs8))
                [i := atualizar_item amb0 camposPermitidos_noticia [''autor'' \<mapsto> JStr ''Rui'']
                        (fst (lerNoticias fs8) ! i)])"
    using tn [THEN conjunct2, THEN conjunct1] h2 by blast
  have w5: "campos (atualizar_item amb0 camposPermitidos_noticia [''autor'' \<mapsto> JStr ''Rui''] noticia1)
        ''dataFormatada'' = Some (JStr ''1 de janeiro de 2025'')"
    using tn [THEN conjunct2, THEN conjunct2, THEN conjunct2, THEN conjunct2, THEN conjunct2,
        THEN conjunct2, THEN conjunct2, THEN conjunct2, THEN conjunct2, THEN conjunct2,
        THEN conjunct1] c by simp
  have w6: "\<exists>i. findIndex (\<lambda>x. Some (admin_id x) = Some 2) (fst (lerAdmins amb0 fs8)) = Some i
        \<and> admins_json (snd (atualizar_admin amb0 (Some 2) (Some ''Ana Lima'') None None None fs8))
            = Content ((fst (lerAdmins amb0 fs8))
                [i := aplicar_admin amb0 (Some ''Ana Lima'') None None None
                        (fst (lerAdmins amb0 fs8) ! i)])"
    using ta [THEN conjunct2, THEN conjunct2, THEN conjunct1] h3 by blast
  have w7: "nome (aplicar_admin amb0 (Some ''Ana Lima'') None None None adm2) = ''Ana Lima''"
    "email (aplicar_admin amb0 (Some ''Ana Lima'') None None None adm2) = ''ana@insper.edu.br''"
    "atualizadoEm (aplicar_admin amb0 (Some ''Ana Lima'') None None None adm2)
       = ''2025-08-28T21:30:45.124Z''"
    using ta i by (simp_all add: truthy_str_def amb0_simps)
  have w8: "campos (atualizar_item amb0 camposPermitidos_evento [''local'' \<mapsto> JStr ''Sala 1''] evento1)
        ''atualizadoEm'' = Some (JStr ''2025-08-28T21:30:45.123Z'')"
    using te by (simp add: amb0_simps)
  have d: "truthy ([''data'' \<mapsto> JStr ''2025-08-28''] ''data'')" by simp
  have w9: "campos (atualizar_item amb0 camposPermitidos_noticia [''data'' \<mapsto> JStr ''2025-08-28'']
               noticia1)
        ''dataFormatada'' = Some (JStr ''28 de agosto de 2025'')"
    using update_applies_whitelist
      [where amb = amb0 and upd = "[''data'' \<mapsto> JStr ''2025-08-28'']" and e = noticia1] d
    by (simp add: amb0_simps)
  from h1 h2 h3 m w1 w2 w3 w4 w5 w6 w7 w8 d w9 show ?thesis by blast
qed

end
